theory Spec2Isabelle
  imports Main "HOL-Library.Char_ord" "HOL-Library.List_Lexorder" "HOL-Library.Multiset"
begin

section \<open>Static inference: backend selection, shape-range calibration, input reordering\<close>

text \<open>
  A shallow embedding of \<^verbatim>\<open>paddlex/inference/models/common/static_infer.py\<close>.
  Python exceptions are values of \<open>py_error\<close>; a function that can raise returns
  \<open>py_error + 'a\<close>. Objects that the source mutates (the option object, the native
  predictor, the file system, the logger) are passed in and returned. Calls into the
  native inference library are not executed but recorded, in the order the source
  makes them. Assertions are modelled as enabled (the interpreter's default mode).
\<close>

subsection \<open>Element types\<close>

text \<open>
  The members of the native library's \<^verbatim>\<open>inference.DataType\<close> enumeration; the source
  names the first six.
\<close>

datatype pd_dtype = FLOAT64 | FLOAT32 | INT64 | INT32 | UINT8 | INT8 | FLOAT16 | BFLOAT16 | BOOL

datatype np_dtype = np_float64 | np_float32 | np_int64 | np_int32 | np_uint8 | np_int8

type_synonym shape = "nat list"

subsection \<open>Exceptions\<close>

datatype py_error =
    TypeError_UnsupportedDataType pd_dtype
  | TypeError_NoneNotIterable
  | ValueError_InvalidInputName string string
  | ValueError_InputNameNotFound string string
  | ValueError_CannotReshape nat shape
  | ValueError_InputCount nat nat
  | ValueError_NotInList nat
  | IndexError
  | KeyError string
  | RuntimeError_NoValidModel
  | RuntimeError_NoDynamicShape
  | RuntimeError_NoSuchInput string
  | AssertionError

text \<open>\<^verbatim>\<open>_pd_dtype_to_np_dtype\<close>: an if/elif chain over six members, \<^verbatim>\<open>TypeError\<close> otherwise.\<close>

definition pd_dtype_to_np_dtype :: "pd_dtype \<Rightarrow> py_error + np_dtype" where
  "pd_dtype_to_np_dtype pd_dtype =
     (if pd_dtype = FLOAT64 then Inr np_float64
      else if pd_dtype = FLOAT32 then Inr np_float32
      else if pd_dtype = INT64 then Inr np_int64
      else if pd_dtype = INT32 then Inr np_int32
      else if pd_dtype = UINT8 then Inr np_uint8
      else if pd_dtype = INT8 then Inr np_int8
      else Inl (TypeError_UnsupportedDataType pd_dtype))"

text \<open>
  The numeric kind and bit width of an element type, for both enumerations, and the
  supported kinds in the words of the specification: floating point of 32 or 64 bits,
  signed or unsigned integer of 8, 32 or 64 bits.
\<close>

datatype num_kind = Floating | SignedInt | UnsignedInt | Boolean

fun pd_kind :: "pd_dtype \<Rightarrow> num_kind \<times> nat" where
  "pd_kind FLOAT64 = (Floating, 64)"
| "pd_kind FLOAT32 = (Floating, 32)"
| "pd_kind INT64 = (SignedInt, 64)"
| "pd_kind INT32 = (SignedInt, 32)"
| "pd_kind UINT8 = (UnsignedInt, 8)"
| "pd_kind INT8 = (SignedInt, 8)"
| "pd_kind FLOAT16 = (Floating, 16)"
| "pd_kind BFLOAT16 = (Floating, 16)"
| "pd_kind BOOL = (Boolean, 8)"


fun spec_supported_kind :: "num_kind \<times> nat \<Rightarrow> bool" where
  "spec_supported_kind (Floating, b) = (b = 32 \<or> b = 64)"
| "spec_supported_kind (SignedInt, b) = (b = 8 \<or> b = 32 \<or> b = 64)"
| "spec_supported_kind (UnsignedInt, b) = (b = 8 \<or> b = 32 \<or> b = 64)"
| "spec_supported_kind (Boolean, b) = False"

subsection \<open>Arrays, dictionaries, strings and paths\<close>

record 'v ndarray =
  arr_shape :: shape
  arr_dtype :: np_dtype
  arr_data :: "'v list"

text \<open>
  \<^verbatim>\<open>np.ones(shape, dtype)\<close> and \<^verbatim>\<open>np.array(data, dtype).reshape(shape)\<close>; the second
  raises when the number of elements is not the product of the extents. Extents are
  natural numbers, and the sample data is taken flattened.
\<close>

definition np_ones :: "shape \<Rightarrow> np_dtype \<Rightarrow> ('v::one) ndarray" where
  "np_ones s d = \<lparr>arr_shape = s, arr_dtype = d, arr_data = replicate (prod_list s) 1\<rparr>"

definition np_array_reshape :: "'v list \<Rightarrow> np_dtype \<Rightarrow> shape \<Rightarrow> py_error + 'v ndarray" where
  "np_array_reshape xs d s =
     (if length xs = prod_list s then Inr \<lparr>arr_shape = s, arr_dtype = d, arr_data = xs\<rparr>
      else Inl (ValueError_CannotReshape (length xs) s))"

text \<open>
  A Python dictionary is an association list in insertion order; its keys are distinct.
  \<open>dict_set\<close> is \<^verbatim>\<open>d[k] = v\<close>: it overwrites in place, or appends.
\<close>

type_synonym ('k, 'a) dict = "('k \<times> 'a) list"

definition keys :: "('k, 'a) dict \<Rightarrow> 'k list" where
  "keys d = map fst d"

fun dict_set :: "'k \<Rightarrow> 'a \<Rightarrow> ('k, 'a) dict \<Rightarrow> ('k, 'a) dict" where
  "dict_set k v [] = [(k, v)]"
| "dict_set k v ((k', v') # d) = (if k' = k then (k, v) # d else (k', v') # dict_set k v d)"

type_synonym dyn_shapes = "(string, shape \<times> shape \<times> shape) dict"
type_synonym 'v dyn_data = "(string, 'v list \<times> 'v list \<times> 'v list) dict"

fun startswith :: "string \<Rightarrow> string \<Rightarrow> bool" where
  "startswith s [] = True"
| "startswith [] (p # ps) = False"
| "startswith (c # cs) (p # ps) = (c = p \<and> startswith cs ps)"

text \<open>\<open>contains s sub\<close> is \<^verbatim>\<open>sub in s\<close>.\<close>

fun contains :: "string \<Rightarrow> string \<Rightarrow> bool" where
  "contains [] sub = (sub = [])"
| "contains (c # cs) sub = (startswith (c # cs) sub \<or> contains cs sub)"

text \<open>Paths are strings; \<^verbatim>\<open>p / q\<close> of pathlib is \<open>path_join p q\<close>.\<close>

definition path_join :: "string \<Rightarrow> string \<Rightarrow> string" where
  "path_join p q = p @ ''/'' @ q"

definition path_name :: "string \<Rightarrow> string" where
  "path_name p = rev (takeWhile (\<lambda>c. c \<noteq> CHR ''/'') (rev p))"

text \<open>
  The suffix of a file name starts at its last dot, unless that dot is the first or the
  last character of the name.
\<close>

definition path_suffix :: "string \<Rightarrow> string" where
  "path_suffix p =
     (let name = path_name p; ext = takeWhile (\<lambda>c. c \<noteq> CHR ''.'') (rev name)
      in if ext \<noteq> [] \<and> length ext + 1 < length name
         then drop (length name - length ext - 1) name else [])"

definition with_suffix :: "string \<Rightarrow> string \<Rightarrow> string" where
  "with_suffix p suffix = take (length p - length (path_suffix p)) p @ suffix"

definition CACHE_DIR :: string where
  "CACHE_DIR = ''.cache''"

subsection \<open>The option object, the native configuration and the environment\<close>

text \<open>The fields of \<^verbatim>\<open>PaddlePredictorOption\<close> that the source reads or writes.\<close>

record 'v pp_option =
  model_name :: string
  device_type :: string
  device_id :: "int option"
  run_mode :: string
  cpu_threads :: int
  enable_new_ir :: bool
  delete_pass :: "string list"
  trt_max_workspace_size :: int
  trt_max_batch_size :: int
  trt_min_subgraph_size :: int
  trt_use_static :: bool
  trt_use_calib_mode :: bool
  trt_use_dynamic_shapes :: bool
  trt_collect_shape_range_info :: bool
  trt_shape_range_info_path :: "string option"
  trt_discard_cached_shape_range_info :: bool
  trt_allow_rebuild_at_runtime :: bool
  trt_dynamic_shapes :: "dyn_shapes option"
  trt_dynamic_shape_input_data :: "'v dyn_data option"

datatype precision = Int8 | Float32 | Half

text \<open>Every method the source calls on a native \<^verbatim>\<open>Config\<close>, with its arguments.\<close>

datatype config_call =
    EnableUseGpu nat "int option"
  | CollectShapeRangeInfo string
  | DisableGlogInfo
  | SetOptimCacheDir string
  | EnableTensorrtEngine int int int precision bool bool
  | EnableTunedTensorrtDynamicShape string bool
  | SetTrtDynamicShapeInfo "(string, shape) dict" "(string, shape) dict" "(string, shape) dict"
  | ExpDisableMixedPrecisionOps "string list"
  | EnableNewIr bool
  | EnableNewExecutor
  | SetOptimizationLevel nat
  | EnableCustomDevice string
  | DeletePass string
  | DisableGpu
  | EnableMkldnn
  | EnableMkldnnBfloat16
  | SetMkldnnCacheCapacity int
  | DisableMkldnn
  | SetCpuMathLibraryNumThreads int
  | EnableMemoryOptim

record config =
  cfg_model_file :: string
  cfg_params_file :: string
  cfg_calls :: "config_call list"

definition Config :: "string \<Rightarrow> string \<Rightarrow> config" where
  "Config model_file params_file =
     \<lparr>cfg_model_file = model_file, cfg_params_file = params_file, cfg_calls = []\<rparr>"

definition cfg_do :: "config_call list \<Rightarrow> config \<Rightarrow> config" where
  "cfg_do cs cfg = cfg\<lparr>cfg_calls := cfg_calls cfg @ cs\<rparr>"

text \<open>
  What the source takes from outside this file: the global flags, the host, the
  capabilities of the linked native runtime, the model files found by
  \<^verbatim>\<open>get_model_paths\<close>, the inputs and outputs the model declares, the table
  \<^verbatim>\<open>TRT_CFG\<close>, and the function the model computes.
\<close>

record 'v env =
  USE_PIR_TRT :: bool
  DEBUG :: bool
  cpu_vendor_id_raw :: string
  has_enable_new_ir :: bool
  has_enable_new_executor :: bool
  has_disable_mkldnn :: bool
  enable_mkldnn_raises :: bool
  enable_mkldnn_bfloat16_raises :: bool
  is_compiled_with_rocm :: bool
  paddle_model_paths :: "(string \<times> string) option"
  model_inputs :: "(string, pd_dtype) dict"
  model_outputs :: "string list"
  TRT_CFG :: "(string, (string, string) dict) dict"
  trt_config_attrs :: "string list"
  net :: "'v ndarray list \<Rightarrow> 'v ndarray list"

subsection \<open>The native predictor\<close>

text \<open>The calls the source makes on a predictor and on its tensor handles.\<close>

datatype 'v paddle_tensor = Tensor (place: "string \<times> int list option") (numpy: "'v ndarray")

datatype 'v native_call =
    Reshape string shape
  | CopyFromCpu string "'v ndarray"
  | Run
  | RunTensors "'v paddle_tensor list"
  | CopyToCpu string

record 'v predictor =
  pred_config :: config
  pred_inputs :: "(string, pd_dtype) dict"
  pred_outputs :: "string list"
  pred_calls :: "'v native_call list"

definition create_predictor :: "'v env \<Rightarrow> config \<Rightarrow> 'v predictor" where
  "create_predictor e cfg =
     \<lparr>pred_config = cfg, pred_inputs = model_inputs e, pred_outputs = model_outputs e,
      pred_calls = []\<rparr>"

definition get_input_names :: "'v predictor \<Rightarrow> string list" where
  "get_input_names p = keys (pred_inputs p)"

definition handle_type :: "'v predictor \<Rightarrow> string \<Rightarrow> py_error + pd_dtype" where
  "handle_type p name =
     (case map_of (pred_inputs p) name of
        None \<Rightarrow> Inl (RuntimeError_NoSuchInput name)
      | Some t \<Rightarrow> Inr t)"

definition native :: "'v native_call list \<Rightarrow> 'v predictor \<Rightarrow> 'v predictor" where
  "native cs p = p\<lparr>pred_calls := pred_calls p @ cs\<rparr>"

subsection \<open>The file system and the logger\<close>

datatype fs_op = MkdirParentOf string | Unlink string

datatype log_msg =
    Info_WillCollect string
  | Info_RemovedWillRecollect string
  | Info_AlreadyExists string
  | Warning_LatexOcrMkldnn
  | Debug_RunModeUpdated
  | Debug_DeviceIdSet
  | Warning_MkldnnUnavailable
  | Warning_NoTrtConfigAttr string

datatype trt_precision = PrecisionMode_INT8 | PrecisionMode_FP32 | PrecisionMode_FP16

record trt_config =
  trt_inputs :: "(shape \<times> shape \<times> shape) list"
  trt_attrs :: "(string, string) dict"
  precision_mode :: "trt_precision option"
  save_model_dir :: "string option"

text \<open>
  \<open>files\<close> are the files that exist; \<open>calibrations\<close> holds, for every throwaway
  calibration predictor, the calls made on it; \<open>conversions\<close> are the calls of the
  native accelerator compiler \<^verbatim>\<open>convert\<close>.
\<close>

record 'v world =
  files :: "string set"
  fs_ops :: "fs_op list"
  logs :: "log_msg list"
  calibrations :: "'v native_call list list"
  conversions :: "(string \<times> trt_config) list"

definition log :: "log_msg \<Rightarrow> 'v world \<Rightarrow> 'v world" where
  "log m w = w\<lparr>logs := logs w @ [m]\<rparr>"

subsection \<open>The shape-range calibrator\<close>

text \<open>
  Lines 89 to 109 of \<^verbatim>\<open>_collect_trt_shape_range_info\<close>: the three dictionaries of
  arrays, one entry per item of \<^verbatim>\<open>dynamic_shapes\<close>, from the sample data where the
  name has some and filled with ones otherwise.
\<close>

type_synonym 'v arrs = "(string, 'v ndarray) dict"

fun make_arrs ::
  "'v predictor \<Rightarrow> ('v::one) dyn_data \<Rightarrow> dyn_shapes \<Rightarrow> 'v arrs \<times> 'v arrs \<times> 'v arrs
     \<Rightarrow> py_error + ('v arrs \<times> 'v arrs \<times> 'v arrs)" where
  "make_arrs p data [] acc = Inr acc"
| "make_arrs p data ((name, min_shape, opt_shape, max_shape) # rest)
       (min_arrs, opt_arrs, max_arrs) =
     (case handle_type p name of
        Inl e \<Rightarrow> Inl e
      | Inr t \<Rightarrow>
     (case pd_dtype_to_np_dtype t of
        Inl e \<Rightarrow> Inl e
      | Inr dtype \<Rightarrow>
     (case map_of data name of
        Some (d0, d1, d2) \<Rightarrow>
          (case np_array_reshape d0 dtype min_shape of
             Inl e \<Rightarrow> Inl e
           | Inr a0 \<Rightarrow>
          (case np_array_reshape d1 dtype opt_shape of
             Inl e \<Rightarrow> Inl e
           | Inr a1 \<Rightarrow>
          (case np_array_reshape d2 dtype max_shape of
             Inl e \<Rightarrow> Inl e
           | Inr a2 \<Rightarrow>
               make_arrs p data rest
                 (dict_set name a0 min_arrs, dict_set name a1 opt_arrs,
                  dict_set name a2 max_arrs))))
      | None \<Rightarrow>
          make_arrs p data rest
            (dict_set name (np_ones min_shape dtype) min_arrs,
             dict_set name (np_ones opt_shape dtype) opt_arrs,
             dict_set name (np_ones max_shape dtype) max_arrs))))"

text \<open>
  One pass of the loop of lines 112 to 117: every array is reshaped into and copied to
  its input handle, then the predictor runs.
\<close>

definition feed :: "'v arrs \<Rightarrow> 'v predictor \<Rightarrow> 'v predictor" where
  "feed arrs p =
     native [Run]
       (fold (\<lambda>(name, arr). native [Reshape name (arr_shape arr), CopyFromCpu name arr]) arrs p)"

text \<open>
  The body of \<^verbatim>\<open>_collect_trt_shape_range_info\<close>, up to its last statement. It returns
  the local \<^verbatim>\<open>predictor\<close> as well, which is still alive there. The body never touches
  \<open>files\<close>: the source has no call that writes the shape range file.
\<close>

definition collect_body ::
  "'v env \<Rightarrow> string \<Rightarrow> string \<Rightarrow> int option \<Rightarrow> string \<Rightarrow> dyn_shapes option
     \<Rightarrow> ('v::one) dyn_data option \<Rightarrow> 'v world
     \<Rightarrow> (py_error + unit) \<times> 'v predictor \<times> 'v world" where
  "collect_body e model_file model_params gpu_id shape_range_info_path dynamic_shapes
       dynamic_shape_input_data w =
     (let data = (case dynamic_shape_input_data of None \<Rightarrow> [] | Some d \<Rightarrow> d);
          config = cfg_do [EnableUseGpu 100 gpu_id,
                           CollectShapeRangeInfo shape_range_info_path,
                           DisableGlogInfo] (Config model_file model_params);
          predictor = create_predictor e config;
          input_names = get_input_names predictor;
          (r, p) =
            (case dynamic_shapes of
               None \<Rightarrow> (Inl TypeError_NoneNotIterable, predictor)
             | Some ds \<Rightarrow>
            (case find (\<lambda>name. name \<notin> set input_names) (keys ds) of
               Some name \<Rightarrow>
                 (Inl (ValueError_InvalidInputName name ''dynamic_shapes''), predictor)
             | None \<Rightarrow>
            (case find (\<lambda>name. name \<notin> set (keys ds)) input_names of
               Some name \<Rightarrow>
                 (Inl (ValueError_InputNameNotFound name ''dynamic_shapes''), predictor)
             | None \<Rightarrow>
            (case find (\<lambda>name. name \<notin> set input_names) (keys data) of
               Some name \<Rightarrow>
                 (Inl (ValueError_InvalidInputName name ''dynamic_shape_input_data''),
                  predictor)
             | None \<Rightarrow>
            (case make_arrs predictor data ds ([], [], []) of
               Inl err \<Rightarrow> (Inl err, predictor)
             | Inr (min_arrs, opt_arrs, max_arrs) \<Rightarrow>
                 (Inr (), fold feed [min_arrs, opt_arrs, opt_arrs, max_arrs] predictor))))))
      in (r, p, w\<lparr>calibrations := calibrations w @ [pred_calls p]\<rparr>))"

text \<open>
  The comment that ends the source function: the native library writes the shape range
  file only when the predictor is finalized. \<open>predictor_del\<close> is that finalizer.
\<close>

definition collect_path :: "config \<Rightarrow> string option" where
  "collect_path cfg =
     (case [p. CollectShapeRangeInfo p \<leftarrow> cfg_calls cfg] of
        [] \<Rightarrow> None
      | p # ps \<Rightarrow> Some (last (p # ps)))"

definition predictor_del :: "'v predictor \<Rightarrow> 'v world \<Rightarrow> 'v world" where
  "predictor_del p w =
     (case collect_path (pred_config p) of
        None \<Rightarrow> w
      | Some path \<Rightarrow> w\<lparr>files := insert path (files w)\<rparr>)"

text \<open>
  A call of \<^verbatim>\<open>_collect_trt_shape_range_info\<close> under CPython: when the body returns, the
  frame drops the only reference to the predictor, and reference counting finalizes it at
  once. When the body raises, the traceback keeps the frame, and the predictor, alive.
\<close>

definition collect_trt_shape_range_info ::
  "'v env \<Rightarrow> string \<Rightarrow> string \<Rightarrow> int option \<Rightarrow> string \<Rightarrow> dyn_shapes option
     \<Rightarrow> ('v::one) dyn_data option \<Rightarrow> 'v world \<Rightarrow> (py_error + unit) \<times> 'v world" where
  "collect_trt_shape_range_info e model_file model_params gpu_id shape_range_info_path
       dynamic_shapes dynamic_shape_input_data w =
     (case collect_body e model_file model_params gpu_id shape_range_info_path
             dynamic_shapes dynamic_shape_input_data w of
        (Inl err, p, w') \<Rightarrow> (Inl err, w')
      | (Inr u, p, w') \<Rightarrow> (Inr u, predictor_del p w'))"

subsection \<open>The accelerator compiler of the PIR route\<close>

fun list_comp :: "('a \<Rightarrow> py_error + 'b) \<Rightarrow> 'a list \<Rightarrow> py_error + 'b list" where
  "list_comp f [] = Inr []"
| "list_comp f (x # xs) =
     (case f x of
        Inl e \<Rightarrow> Inl e
      | Inr y \<Rightarrow> (case list_comp f xs of Inl e \<Rightarrow> Inl e | Inr ys \<Rightarrow> Inr (y # ys)))"

definition set_trt_config ::
  "'v env \<Rightarrow> string \<Rightarrow> trt_config \<times> 'v world \<Rightarrow> trt_config \<times> 'v world" where
  "set_trt_config e name tw =
     (case map_of (TRT_CFG e) name of
        None \<Rightarrow> tw
      | Some settings \<Rightarrow>
          if settings = [] then tw
          else fold (\<lambda>(attr_name, v) (tc, w).
                  (tc\<lparr>trt_attrs := dict_set attr_name v (trt_attrs tc)\<rparr>,
                   if attr_name \<in> set (trt_config_attrs e) then w
                   else log (Warning_NoTrtConfigAttr attr_name) w))
                 settings tw)"

definition precision_map :: "string \<Rightarrow> trt_precision option" where
  "precision_map mode =
     (if mode = ''trt_int8'' then Some PrecisionMode_INT8
      else if mode = ''trt_fp32'' then Some PrecisionMode_FP32
      else if mode = ''trt_fp16'' then Some PrecisionMode_FP16
      else None)"

definition convert_trt ::
  "'v env \<Rightarrow> string \<Rightarrow> string \<Rightarrow> string \<Rightarrow> string \<Rightarrow> string \<Rightarrow> dyn_shapes option
     \<Rightarrow> 'v world \<Rightarrow> (py_error + unit) \<times> 'v world" where
  "convert_trt e name mode pp_model_file pp_params_file trt_save_path trt_dyn_shapes w =
     (let input_names = keys (model_inputs e) in
      case trt_dyn_shapes of
        None \<Rightarrow> (Inl TypeError_NoneNotIterable, w)
      | Some ds \<Rightarrow>
     (case find (\<lambda>name. name \<notin> set input_names) (keys ds) of
        Some name \<Rightarrow> (Inl (ValueError_InvalidInputName name ''trt_dynamic_shapes''), w)
      | None \<Rightarrow>
     (case find (\<lambda>name. name \<notin> set (keys ds)) input_names of
        Some name \<Rightarrow> (Inl (ValueError_InputNameNotFound name ''trt_dynamic_shapes''), w)
      | None \<Rightarrow>
     (case list_comp (\<lambda>name. case map_of ds name of
                                None \<Rightarrow> Inl (KeyError name)
                              | Some shapes \<Rightarrow> Inr shapes) input_names of
        Inl err \<Rightarrow> (Inl err, w)
      | Inr inputs \<Rightarrow>
          (let (tc, w1) = set_trt_config e name
                 (\<lparr>trt_inputs = inputs, trt_attrs = [], precision_mode = None,
                   save_model_dir = None\<rparr>, w)
           in case precision_map mode of
                None \<Rightarrow> (Inl (KeyError mode), w1)
              | Some pm \<Rightarrow>
                  (Inr (),
                   w1\<lparr>conversions := conversions w1 @
                        [(with_suffix pp_model_file [],
                          tc\<lparr>precision_mode := Some pm,
                             save_model_dir := Some trt_save_path\<rparr>)]\<rparr>))))))"

subsection \<open>Reordering the inputs\<close>

text \<open>\<^verbatim>\<open>list.index\<close>: the first position of an element, \<^verbatim>\<open>ValueError\<close> (here \<open>None\<close>) without one.\<close>

fun index_of :: "'a list \<Rightarrow> 'a \<Rightarrow> nat option" where
  "index_of [] x = None"
| "index_of (y # ys) x = (if y = x then Some 0 else map_option Suc (index_of ys x))"

definition getitem :: "'a list \<Rightarrow> nat \<Rightarrow> py_error + 'a" where
  "getitem xs i = (if i < length xs then Inr (xs ! i) else Inl IndexError)"

text \<open>
  \<^verbatim>\<open>_sort_inputs\<close>. \<^verbatim>\<open>sorted\<close> is stable, as \<open>sort_key\<close> is; the subscript of
  \<^verbatim>\<open>names\<close> is always in range.
\<close>

definition sort_inputs :: "'a list \<Rightarrow> ('k::linorder) list \<Rightarrow> py_error + 'a list" where
  "sort_inputs inputs names =
     (let indices = sort_key (\<lambda>i. names ! i) [0..<length names]
      in list_comp (\<lambda>i. case index_of indices i of
                           None \<Rightarrow> Inl (ValueError_NotInList i)
                         | Some j \<Rightarrow> getitem inputs j)
           [0..<length inputs])"

subsection \<open>Configuring the accelerator engine\<close>

definition PRECISION_MAP :: "string \<Rightarrow> precision option" where
  "PRECISION_MAP mode =
     (if mode = ''trt_int8'' then Some Int8
      else if mode = ''trt_fp32'' then Some Float32
      else if mode = ''trt_fp16'' then Some Half
      else None)"

text \<open>
  Lines 485 to 495: the native call sits inside the loop, so it is made once per item,
  with the dictionaries as filled so far.
\<close>

fun set_dynamic_shape_info ::
  "dyn_shapes \<Rightarrow> (string, shape) dict \<times> (string, shape) dict \<times> (string, shape) dict
     \<Rightarrow> config \<Rightarrow> config" where
  "set_dynamic_shape_info [] acc cfg = cfg"
| "set_dynamic_shape_info ((key, s0, s1, s2) # rest) (min_shapes, opt_shapes, max_shapes) cfg =
     (let min_shapes' = dict_set key s0 min_shapes;
          opt_shapes' = dict_set key s1 opt_shapes;
          max_shapes' = dict_set key s2 max_shapes
      in set_dynamic_shape_info rest (min_shapes', opt_shapes', max_shapes')
           (cfg_do [SetTrtDynamicShapeInfo min_shapes' max_shapes' opt_shapes'] cfg))"

text \<open>
  Lines 443 to 497 of \<^verbatim>\<open>_configure_trt\<close>: the shape range file is collected when it
  does not exist, or when it exists and is to be discarded (it is unlinked first);
  otherwise the existing file is used as it is.
\<close>

definition configure_dynamic_shapes ::
  "'v env \<Rightarrow> ('v::one) pp_option \<Rightarrow> string \<Rightarrow> string \<Rightarrow> string \<Rightarrow> config \<Rightarrow> 'v world
     \<Rightarrow> (py_error + config) \<times> 'v world" where
  "configure_dynamic_shapes e opt model_file params_file cache_dir cfg w =
     (if trt_collect_shape_range_info opt then
        (let path = (case trt_shape_range_info_path opt of
                       Some p \<Rightarrow> p
                     | None \<Rightarrow> path_join cache_dir ''shape_range_info.pbtxt'');
             (should_collect, w1) =
               (if path \<notin> files w then
                  (True, log (Info_WillCollect path)
                           (w\<lparr>fs_ops := fs_ops w @ [MkdirParentOf path]\<rparr>))
                else if trt_discard_cached_shape_range_info opt then
                  (True, log (Info_RemovedWillRecollect path)
                           (w\<lparr>files := files w - {path},
                              fs_ops := fs_ops w @ [Unlink path]\<rparr>))
                else (False, log (Info_AlreadyExists path) w));
             (r, w2) =
               (if should_collect then
                  collect_trt_shape_range_info e model_file params_file (device_id opt) path
                    (trt_dynamic_shapes opt) (trt_dynamic_shape_input_data opt) w1
                else (Inr (), w1))
         in case r of
              Inl err \<Rightarrow> (Inl err, w2)
            | Inr u \<Rightarrow>
                (Inr (cfg_do [EnableTunedTensorrtDynamicShape path
                                (trt_allow_rebuild_at_runtime opt)] cfg), w2))
      else
        (case trt_dynamic_shapes opt of
           Some ds \<Rightarrow> (Inr (set_dynamic_shape_info ds ([], [], []) cfg), w)
         | None \<Rightarrow> (Inl RuntimeError_NoDynamicShape, w)))"

text \<open>\<^verbatim>\<open>StaticInfer._configure_trt\<close>; \<open>prefix\<close> is \<^verbatim>\<open>self.model_file_prefix\<close>.\<close>

definition configure_trt ::
  "'v env \<Rightarrow> ('v::one) pp_option \<Rightarrow> string \<Rightarrow> string \<Rightarrow> string \<Rightarrow> string \<Rightarrow> 'v world
     \<Rightarrow> (py_error + config) \<times> 'v world" where
  "configure_trt e opt prefix model_file params_file cache_dir w =
     (if USE_PIR_TRT e then
        (let trt_save_path = path_join (path_join cache_dir ''trt'') prefix
         in case convert_trt e (model_name opt) (run_mode opt) model_file params_file
                   trt_save_path (trt_dynamic_shapes opt) w of
              (Inl err, w1) \<Rightarrow> (Inl err, w1)
            | (Inr u, w1) \<Rightarrow>
                (Inr (Config (with_suffix trt_save_path ''.json'')
                        (with_suffix trt_save_path ''.pdiparams'')), w1))
      else
        (case PRECISION_MAP (run_mode opt) of
           None \<Rightarrow> (Inl (KeyError (run_mode opt)), w)
         | Some pm \<Rightarrow>
             (let cfg = cfg_do
                    [SetOptimCacheDir (path_join cache_dir ''optim_cache''),
                     EnableTensorrtEngine (trt_max_workspace_size opt) (trt_max_batch_size opt)
                       (trt_min_subgraph_size opt) pm (trt_use_static opt)
                       (trt_use_calib_mode opt)]
                    (Config model_file params_file)
              in if trt_use_dynamic_shapes opt
                 then configure_dynamic_shapes e opt model_file params_file cache_dir cfg w
                 else (Inr cfg, w))))"

subsection \<open>Creating the predictor\<close>

definition new_executor :: "'v env \<Rightarrow> config_call list" where
  "new_executor e = (if has_enable_new_executor e then [EnableNewExecutor] else [])"

definition new_ir :: "'v env \<Rightarrow> 'v pp_option \<Rightarrow> config_call list" where
  "new_ir e opt = (if has_enable_new_ir e then [EnableNewIr (enable_new_ir opt)] else [])"

text \<open>
  Lines 343 to 394 of \<^verbatim>\<open>_create\<close>: the branch per device type. In the last branch
  the two MKL-DNN calls sit in a \<^verbatim>\<open>try\<close> whose handler logs a warning.
\<close>

definition configure_device ::
  "'v env \<Rightarrow> 'v pp_option \<Rightarrow> config \<Rightarrow> 'v world \<Rightarrow> (py_error + config) \<times> 'v world" where
  "configure_device e opt cfg w =
     (if device_type opt = ''gpu'' then
        (Inr (cfg_do
           ([ExpDisableMixedPrecisionOps [''feed'', ''fetch''],
             EnableUseGpu 100 (device_id opt)] @
            (if \<not> startswith (run_mode opt) ''trt''
             then new_ir e opt @ new_executor e @ [SetOptimizationLevel 3] else [])) cfg), w)
      else if device_type opt = ''npu'' then
        (Inr (cfg_do ([EnableCustomDevice ''npu''] @ new_executor e) cfg), w)
      else if device_type opt = ''xpu'' then
        (Inr (cfg_do (new_executor e) cfg), w)
      else if device_type opt = ''mlu'' then
        (Inr (cfg_do ([EnableCustomDevice ''mlu''] @ new_executor e) cfg), w)
      else if device_type opt = ''dcu'' then
        (Inr (cfg_do
           ([EnableUseGpu 100 (device_id opt)] @ new_executor e @
            (if is_compiled_with_rocm e
             then [DeletePass ''conv2d_add_act_fuse_pass'', DeletePass ''conv2d_add_fuse_pass'']
             else [])) cfg), w)
      else if device_type opt \<noteq> ''cpu'' then (Inl AssertionError, w)
      else
        (let (mkldnn, w1) =
               (if contains (run_mode opt) ''mkldnn'' then
                  (let (cs, w') =
                         (if enable_mkldnn_raises e then ([], log Warning_MkldnnUnavailable w)
                          else if contains (run_mode opt) ''bf16'' then
                            (if enable_mkldnn_bfloat16_raises e
                             then ([EnableMkldnn], log Warning_MkldnnUnavailable w)
                             else ([EnableMkldnn, EnableMkldnnBfloat16], w))
                          else ([EnableMkldnn], w))
                   in (cs @ [SetMkldnnCacheCapacity (- 1)], w'))
                else ((if has_disable_mkldnn e then [DisableMkldnn] else []), w))
         in (Inr (cfg_do
               ([DisableGpu] @ mkldnn @ [SetCpuMathLibraryNumThreads (cpu_threads opt)] @
                new_ir e opt @ new_executor e @ [SetOptimizationLevel 3]) cfg), w1)))"

text \<open>
  Lines 311 to 322 of \<^verbatim>\<open>_create\<close>: for the model \<^verbatim>\<open>LaTeX_OCR_rec\<close> the run mode
  becomes \<^verbatim>\<open>mkldnn\<close>. The assignment is outside the inner \<^verbatim>\<open>if\<close>, which only logs
  the warning.
\<close>

definition latex_ocr_run_mode ::
  "'v env \<Rightarrow> 'v pp_option \<times> 'v world \<Rightarrow> 'v pp_option \<times> 'v world" where
  "latex_ocr_run_mode e ow =
     (if model_name (fst ow) = ''LaTeX_OCR_rec'' then
        (fst ow\<lparr>run_mode := ''mkldnn''\<rparr>,
         log Debug_RunModeUpdated
           (if contains (cpu_vendor_id_raw e) ''GenuineIntel''
               \<and> run_mode (fst ow) \<noteq> ''mkldnn''
            then log Warning_LatexOcrMkldnn (snd ow) else snd ow))
      else ow)"

text \<open>Lines 324 to 329: the device id of a gpu or dcu defaults to 0.\<close>

definition default_device_id :: "'v pp_option \<times> 'v world \<Rightarrow> 'v pp_option \<times> 'v world" where
  "default_device_id ow =
     (if device_type (fst ow) \<in> {''gpu'', ''dcu''} \<and> device_id (fst ow) = None
      then (fst ow\<lparr>device_id := Some 0\<rparr>, log Debug_DeviceIdSet (snd ow))
      else ow)"

text \<open>Lines 331 to 341: the accelerator route is asserted to be on a gpu.\<close>

definition initial_config ::
  "'v env \<Rightarrow> string \<Rightarrow> string \<Rightarrow> string \<Rightarrow> string \<Rightarrow> ('v::one) pp_option \<Rightarrow> 'v world
     \<Rightarrow> (py_error + config) \<times> 'v world" where
  "initial_config e model_dir prefix model_file params_file opt w =
     (if startswith (run_mode opt) ''trt'' then
        (if device_type opt \<noteq> ''gpu'' then (Inl AssertionError, w)
         else configure_trt e opt prefix model_file params_file
                (path_join (path_join model_dir CACHE_DIR) ''paddle'') w)
      else (Inr (Config model_file params_file), w))"

text \<open>
  \<^verbatim>\<open>StaticInfer._create\<close>. The option object is shared with the caller and mutated in
  place, so it is returned also when the function raises.
\<close>

definition create ::
  "'v env \<Rightarrow> string \<Rightarrow> string \<Rightarrow> ('v::one) pp_option \<Rightarrow> 'v world
     \<Rightarrow> (py_error + 'v predictor) \<times> 'v pp_option \<times> 'v world" where
  "create e model_dir prefix opt0 w0 =
     (case paddle_model_paths e of
        None \<Rightarrow> (Inl RuntimeError_NoValidModel, opt0, w0)
      | Some (model_file, params_file) \<Rightarrow>
          (let (opt, w2) = default_device_id (latex_ocr_run_mode e (opt0, w0));
               (r, w3) = initial_config e model_dir prefix model_file params_file opt w2
           in case r of
                Inl err \<Rightarrow> (Inl err, opt, w3)
              | Inr cfg \<Rightarrow>
                  (case configure_device e opt cfg w3 of
                     (Inl err, w4) \<Rightarrow> (Inl err, opt, w4)
                   | (Inr cfg1, w4) \<Rightarrow>
                       (let cfg2 = cfg_do
                              ([EnableMemoryOptim] @ map DeletePass (delete_pass opt) @
                               (if \<not> DEBUG e then [DisableGlogInfo] else [])) cfg1
                        in (Inr (create_predictor e cfg2), opt, w4)))))"

subsection \<open>The execution pipeline and the facade\<close>

text \<open>
  \<^verbatim>\<open>self.infer\<close>: the chain of \<^verbatim>\<open>PaddleCopyToDevice\<close>, \<^verbatim>\<open>PaddleModelInfer\<close> and
  \<^verbatim>\<open>PaddleCopyToHost\<close>, with the device type and device id the first stage holds, or
  \<^verbatim>\<open>PaddleInferChainLegacy\<close> with the names of its bound input and output handles.
\<close>

datatype pipeline = Chain string "int option" | ChainLegacy "string list" "string list"

record 'v static_infer =
  si_model_dir :: string
  si_model_file_prefix :: string
  si_option :: "'v pp_option"
  si_predictor :: "'v predictor"
  si_infer :: pipeline

definition use_legacy_api :: "'v pp_option \<Rightarrow> bool" where
  "use_legacy_api opt = (device_type opt \<notin> {''cpu'', ''gpu'', ''dcu''})"

text \<open>\<^verbatim>\<open>StaticInfer.__init__\<close>\<close>

definition StaticInfer ::
  "'v env \<Rightarrow> string \<Rightarrow> string \<Rightarrow> ('v::one) pp_option \<Rightarrow> 'v world
     \<Rightarrow> (py_error + 'v static_infer) \<times> 'v pp_option \<times> 'v world" where
  "StaticInfer e model_dir model_prefix opt0 w =
     (case create e model_dir model_prefix opt0 w of
        (Inl err, opt, w') \<Rightarrow> (Inl err, opt, w')
      | (Inr predictor, opt, w') \<Rightarrow>
          (Inr \<lparr>si_model_dir = model_dir, si_model_file_prefix = model_prefix,
                si_option = opt, si_predictor = predictor,
                si_infer =
                  (if \<not> use_legacy_api opt then
                     Chain (if device_type opt = ''dcu'' then ''gpu'' else device_type opt)
                       (device_id opt)
                   else ChainLegacy (get_input_names predictor) (pred_outputs predictor))\<rparr>,
           opt, w'))"

text \<open>
  \<^verbatim>\<open>self.infer(x)\<close>: the arrays handed to the pipeline reach the predictor, as tensors
  placed on the device or through the bound handles, and the outputs come back.
\<close>

definition infer ::
  "'v env \<Rightarrow> 'v static_infer \<Rightarrow> 'v ndarray list \<Rightarrow> 'v ndarray list \<times> 'v static_infer" where
  "infer e s x =
     (case si_infer s of
        Chain dev_type dev_id \<Rightarrow>
          (let device = (dev_type, map_option (\<lambda>i. [i]) dev_id);
               paddle_tensors = map (Tensor device) x;
               outs = map (Tensor device) (net e (map numpy paddle_tensors))
           in (map numpy outs,
               s\<lparr>si_predictor := native [RunTensors paddle_tensors] (si_predictor s)\<rparr>))
      | ChainLegacy input_handles output_handles \<Rightarrow>
          (let fed = zip x input_handles
           in (net e (map fst fed),
               s\<lparr>si_predictor :=
                    native (concat (map (\<lambda>(input, h).
                                      [Reshape h (arr_shape input), CopyFromCpu h input]) fed)
                            @ [Run] @ map CopyToCpu output_handles)
                      (si_predictor s)\<rparr>)))"

text \<open>
  \<^verbatim>\<open>StaticInfer.__call__\<close>. \<^verbatim>\<open>np.ascontiguousarray\<close> changes the memory layout of an
  array, not its value.
\<close>

definition ascontiguousarray :: "'v ndarray \<Rightarrow> 'v ndarray" where
  "ascontiguousarray a = a"

definition call ::
  "'v env \<Rightarrow> 'v static_infer \<Rightarrow> 'v ndarray list
     \<Rightarrow> (py_error + 'v ndarray list) \<times> 'v static_infer" where
  "call e s x =
     (let names = get_input_names (si_predictor s)
      in if length names \<noteq> length x
         then (Inl (ValueError_InputCount (length names) (length x)), s)
         else (case sort_inputs x names of
                 Inl err \<Rightarrow> (Inl err, s)
               | Inr x1 \<Rightarrow>
                   (let (pred, s') = infer e s (map ascontiguousarray x1)
                    in (Inr pred, s'))))"

subsection \<open>Notions used in the statements\<close>

text \<open>The native calls of one calibration pass over a dictionary of arrays.\<close>

definition feed_calls :: "'v arrs \<Rightarrow> 'v native_call list" where
  "feed_calls arrs =
     concat (map (\<lambda>(name, arr). [Reshape name (arr_shape arr), CopyFromCpu name arr]) arrs)
     @ [Run]"

definition shapes_of :: "'v arrs \<Rightarrow> (string \<times> shape) list" where
  "shapes_of arrs = map (\<lambda>(name, arr). (name, arr_shape arr)) arrs"

text \<open>\<^verbatim>\<open>dynamic_shape_input_data or {}\<close>\<close>

definition sample_data :: "'v dyn_data option \<Rightarrow> 'v dyn_data" where
  "sample_data dd = (case dd of None \<Rightarrow> [] | Some d \<Rightarrow> d)"

text \<open>Every sample has as many elements as the shape it is reshaped to.\<close>

definition data_fits :: "'v dyn_data \<Rightarrow> dyn_shapes \<Rightarrow> bool" where
  "data_fits data ds =
     list_all (\<lambda>(name, s0, s1, s2).
        case map_of data name of
          None \<Rightarrow> True
        | Some (d0, d1, d2) \<Rightarrow>
            length d0 = prod_list s0 \<and> length d1 = prod_list s1 \<and> length d2 = prod_list s2) ds"

definition types_supported :: "(string, pd_dtype) dict \<Rightarrow> bool" where
  "types_supported inputs = list_all (\<lambda>(name, t). spec_supported_kind (pd_kind t)) inputs"

text \<open>
  The two errors of the name checks: a key that is no input name, an input name that
  is no key.
\<close>

fun input_name_mismatch :: "string list \<Rightarrow> string list \<Rightarrow> py_error \<Rightarrow> bool" where
  "input_name_mismatch ks names (ValueError_InvalidInputName n src) =
     (n \<in> set ks \<and> n \<notin> set names)"
| "input_name_mismatch ks names (ValueError_InputNameNotFound n src) =
     (n \<in> set names \<and> n \<notin> set ks)"
| "input_name_mismatch ks names err = False"

text \<open>The list \<^verbatim>\<open>indices\<close> of \<^verbatim>\<open>_sort_inputs\<close>, and the position of an index in it.\<close>

definition indices_of :: "('k::linorder) list \<Rightarrow> nat list" where
  "indices_of names = sort_key (\<lambda>i. names ! i) [0..<length names]"

definition pos_of :: "('k::linorder) list \<Rightarrow> nat \<Rightarrow> nat" where
  "pos_of names i = the (index_of (indices_of names) i)"

text \<open>Repeated calls of the facade, errors or not.\<close>

fun run_all :: "'v env \<Rightarrow> 'v static_infer \<Rightarrow> 'v ndarray list list \<Rightarrow> 'v static_infer" where
  "run_all e s [] = s"
| "run_all e s (x # xs) = run_all e (snd (call e s x)) xs"

fun feeds_or_runs :: "'v native_call \<Rightarrow> bool" where
  "feeds_or_runs (Reshape name s) = True"
| "feeds_or_runs (CopyFromCpu name arr) = True"
| "feeds_or_runs Run = True"
| "feeds_or_runs c = False"

definition shape_range_path :: "'v pp_option \<Rightarrow> string \<Rightarrow> string" where
  "shape_range_path opt cache_dir =
     (case trt_shape_range_info_path opt of
        Some p \<Rightarrow> p
      | None \<Rightarrow> path_join cache_dir ''shape_range_info.pbtxt'')"

definition profile_route :: "'v env \<Rightarrow> 'v pp_option \<Rightarrow> bool" where
  "profile_route e opt =
     (\<not> USE_PIR_TRT e \<and> PRECISION_MAP (run_mode opt) \<noteq> None
      \<and> trt_use_dynamic_shapes opt \<and> trt_collect_shape_range_info opt)"

definition trt_base_config :: "'v pp_option \<Rightarrow> string \<Rightarrow> string \<Rightarrow> string \<Rightarrow> config" where
  "trt_base_config opt model_file params_file cache_dir =
     cfg_do
       [SetOptimCacheDir (path_join cache_dir ''optim_cache''),
        EnableTensorrtEngine (trt_max_workspace_size opt) (trt_max_batch_size opt)
          (trt_min_subgraph_size opt) (the (PRECISION_MAP (run_mode opt))) (trt_use_static opt)
          (trt_use_calib_mode opt)]
       (Config model_file params_file)"

definition calibration_input_ok :: "'v env \<Rightarrow> 'v pp_option \<Rightarrow> bool" where
  "calibration_input_ok e opt =
     (case trt_dynamic_shapes opt of
        None \<Rightarrow> False
      | Some ds \<Rightarrow>
          distinct (keys ds) \<and> set (keys ds) = set (keys (model_inputs e))
          \<and> set (keys (sample_data (trt_dynamic_shape_input_data opt)))
                \<subseteq> set (keys (model_inputs e))
          \<and> types_supported (model_inputs e)
          \<and> data_fits (sample_data (trt_dynamic_shape_input_data opt)) ds)"

definition normalized :: "'v pp_option \<Rightarrow> 'v pp_option" where
  "normalized opt0 =
     (let opt1 = (if model_name opt0 = ''LaTeX_OCR_rec'' then opt0\<lparr>run_mode := ''mkldnn''\<rparr>
                  else opt0)
      in if device_type opt1 \<in> {''gpu'', ''dcu''} \<and> device_id opt1 = None
         then opt1\<lparr>device_id := Some 0\<rparr> else opt1)"

fun trt_call :: "config_call \<Rightarrow> bool" where
  "trt_call (SetOptimCacheDir d) = True"
| "trt_call (EnableTensorrtEngine a b c p u v) = True"
| "trt_call (EnableTunedTensorrtDynamicShape p r) = True"
| "trt_call (SetTrtDynamicShapeInfo a b c) = True"
| "trt_call (CollectShapeRangeInfo p) = True"
| "trt_call c = False"


subsection \<open>Example values\<close>

definition ex_env :: "int env" where
  "ex_env = \<lparr>USE_PIR_TRT = False, DEBUG = False, cpu_vendor_id_raw = ''GenuineIntel'',
     has_enable_new_ir = True, has_enable_new_executor = True, has_disable_mkldnn = True,
     enable_mkldnn_raises = False, enable_mkldnn_bfloat16_raises = False,
     is_compiled_with_rocm = False,
     paddle_model_paths = Some (''m/inference.json'', ''m/inference.pdiparams''),
     model_inputs = [(''b'', FLOAT32), (''a'', INT64)], model_outputs = [''out''],
     TRT_CFG = [], trt_config_attrs = [], net = (\<lambda>xs. xs)\<rparr>"

definition ex_shapes :: dyn_shapes where
  "ex_shapes = [(''a'', [1, 3], [2, 3], [4, 3]), (''b'', [1], [2], [4])]"

definition ex_data :: "int dyn_data" where
  "ex_data = [(''b'', [7], [7, 8], [7, 8, 9, 10])]"

definition ex_world :: "int world" where
  "ex_world = \<lparr>files = {}, fs_ops = [], logs = [], calibrations = [], conversions = []\<rparr>"

definition ex_option :: "int pp_option" where
  "ex_option = \<lparr>model_name = ''PP-OCRv4_mobile_det'', device_type = ''gpu'', device_id = None,
     run_mode = ''trt_fp16'', cpu_threads = 8, enable_new_ir = True, delete_pass = [],
     trt_max_workspace_size = 1073741824, trt_max_batch_size = 32, trt_min_subgraph_size = 3,
     trt_use_static = True, trt_use_calib_mode = False, trt_use_dynamic_shapes = True,
     trt_collect_shape_range_info = True, trt_shape_range_info_path = None,
     trt_discard_cached_shape_range_info = False, trt_allow_rebuild_at_runtime = True,
     trt_dynamic_shapes = Some ex_shapes, trt_dynamic_shape_input_data = Some ex_data\<rparr>"

definition ex_array :: "int \<Rightarrow> int ndarray" where
  "ex_array v = \<lparr>arr_shape = [1], arr_dtype = np_int64, arr_data = [v]\<rparr>"

definition ex_facade :: "int static_infer" where
  "ex_facade = \<lparr>si_model_dir = ''m'', si_model_file_prefix = ''inference'',
     si_option = ex_option\<lparr>device_type := ''cpu'', run_mode := ''paddle''\<rparr>,
     si_predictor =
       create_predictor ex_env (Config ''m/inference.json'' ''m/inference.pdiparams''),
     si_infer = Chain ''cpu'' None\<rparr>"


definition ex_world_cached :: "int world" where
  "ex_world_cached = ex_world\<lparr>files := {''m/.cache/paddle/shape_range_info.pbtxt''}\<rparr>"

definition ex_option_discard :: "int pp_option" where
  "ex_option_discard = ex_option\<lparr>trt_discard_cached_shape_range_info := True\<rparr>"

definition ex_option_latex :: "int pp_option" where
  "ex_option_latex = ex_option\<lparr>model_name := ''LaTeX_OCR_rec'', device_type := ''cpu''\<rparr>"

definition ex_option_cpu_trt :: "int pp_option" where
  "ex_option_cpu_trt = ex_option\<lparr>device_type := ''cpu''\<rparr>"

definition ex_option_cpu :: "int pp_option" where
  "ex_option_cpu = ex_option\<lparr>device_type := ''cpu'', run_mode := ''paddle''\<rparr>"

definition ex_option_dcu :: "int pp_option" where
  "ex_option_dcu = ex_option\<lparr>device_type := ''dcu'', run_mode := ''paddle''\<rparr>"



section \<open>Reordering the inputs (C10, C5, C6)\<close>

lemma index_of_Some: "index_of xs x = Some j \<Longrightarrow> j < length xs \<and> xs ! j = x"
  by (induction xs arbitrary: j) (auto split: if_splits)

lemma index_of_mem: "x \<in> set xs \<Longrightarrow> \<exists>j. index_of xs x = Some j"
  by (induction xs) auto

lemma list_comp_map:
  "(\<And>x. x \<in> set xs \<Longrightarrow> f x = Inr (g x)) \<Longrightarrow> list_comp f xs = Inr (map g xs)"
  by (induction xs) auto

lemma pos_of_props:
  assumes "i < length names"
  shows "index_of (indices_of names) i = Some (pos_of names i)"
    and "pos_of names i < length names"
    and "indices_of names ! pos_of names i = i"
proof -
  have "i \<in> set (indices_of names)" using assms by (simp add: indices_of_def)
  then obtain j where j: "index_of (indices_of names) i = Some j"
    using index_of_mem by fastforce
  then show "index_of (indices_of names) i = Some (pos_of names i)"
    by (simp add: pos_of_def)
  from index_of_Some[OF j] have "j < length (indices_of names)" "indices_of names ! j = i"
    by auto
  then show "pos_of names i < length names" "indices_of names ! pos_of names i = i"
    using j by (simp_all add: pos_of_def indices_of_def)
qed

lemma sort_inputs_eq:
  assumes "length inputs = length names"
  shows "sort_inputs inputs names = Inr (map (\<lambda>i. inputs ! pos_of names i) [0..<length names])"
proof -
  have "list_comp (\<lambda>i. case index_of (indices_of names) i of
                           None \<Rightarrow> Inl (ValueError_NotInList i)
                         | Some j \<Rightarrow> getitem inputs j) [0..<length inputs]
        = Inr (map (\<lambda>i. inputs ! pos_of names i) [0..<length inputs])"
  proof (rule list_comp_map)
    fix i assume "i \<in> set [0..<length inputs]"
    then have i: "i < length names" using assms by simp
    show "(case index_of (indices_of names) i of
                           None \<Rightarrow> Inl (ValueError_NotInList i)
                         | Some j \<Rightarrow> getitem inputs j) = Inr (inputs ! pos_of names i)"
      using pos_of_props[OF i] assms by (simp add: getitem_def)
  qed
  then show ?thesis using assms by (simp add: sort_inputs_def indices_of_def)
qed

lemma pos_of_perm: "mset (map (pos_of names) [0..<length names]) = mset [0..<length names]"
proof -
  let ?n = "length names"
  have inj: "inj_on (pos_of names) {0..<?n}"
    by (rule inj_on_inverseI[where g = "\<lambda>j. indices_of names ! j"]) (simp add: pos_of_props)
  have sub: "pos_of names ` {0..<?n} \<subseteq> {0..<?n}"
    using pos_of_props(2) by auto
  have "card (pos_of names ` {0..<?n}) = card {0..<?n}"
    using inj by (rule card_image)
  then have img: "pos_of names ` {0..<?n} = {0..<?n}"
    using sub by (simp add: card_subset_eq)
  have "distinct (map (pos_of names) [0..<?n])"
    using inj by (simp add: distinct_map)
  moreover have "set (map (pos_of names) [0..<?n]) = set [0..<?n]"
    using img by simp
  ultimately show ?thesis
    by (metis distinct_upt set_eq_iff_mset_eq_distinct)
qed

lemma names_indices: "map (\<lambda>i. names ! i) (indices_of names) = sort names"
proof -
  have "map (\<lambda>i. names ! i) (sort_key (\<lambda>i. names ! i) [0..<length names])
        = sort (map (\<lambda>i. names ! i) [0..<length names])"
    by (rule sym, rule properties_for_sort) simp_all
  then show ?thesis by (simp add: indices_of_def map_nth)
qed

lemma sort_inputs_sorted_by_name: "sort_inputs (map g (sort names)) names = Inr (map g names)"
proof -
  let ?n = "length names"
  have "map (\<lambda>i. map g (sort names) ! pos_of names i) [0..<?n] = map (\<lambda>i. g (names ! i)) [0..<?n]"
  proof (rule map_cong[OF refl])
    fix i assume "i \<in> set [0..<?n]"
    then have i: "i < ?n" by simp
    have "sort names ! pos_of names i = names ! (indices_of names ! pos_of names i)"
      using pos_of_props(2)[OF i] by (simp flip: names_indices add: indices_of_def)
    then show "map g (sort names) ! pos_of names i = g (names ! i)"
      using pos_of_props[OF i] by simp
  qed
  also have "\<dots> = map g names"
    by (simp add: map_nth flip: map_map[unfolded comp_def])
  finally show ?thesis using sort_inputs_eq[of "map g (sort names)" names] by simp
qed

text \<open>
  C10. For lists \<open>inputs\<close> and \<open>names\<close> of equal length, \<open>sort_inputs\<close> returns a
  permutation of \<open>inputs\<close>: every element occurs in the result as often as in the
  original, and the result has the same length.
\<close>

theorem sort_inputs_permutation:
  assumes "length inputs = length names"
  shows "\<exists>ys. sort_inputs inputs names = Inr ys \<and> mset ys = mset inputs
            \<and> length ys = length inputs"
proof -
  let ?n = "length names"
  let ?ys = "map (\<lambda>i. inputs ! pos_of names i) [0..<?n]"
  have "?ys = map (\<lambda>j. inputs ! j) (map (pos_of names) [0..<?n])"
    by simp
  then have "mset ?ys = image_mset (\<lambda>j. inputs ! j) (mset (map (pos_of names) [0..<?n]))"
    by (simp only: mset_map)
  also have "\<dots> = image_mset (\<lambda>j. inputs ! j) (mset [0..<?n])"
    by (simp only: pos_of_perm)
  also have "\<dots> = mset (map (\<lambda>j. inputs ! j) [0..<length inputs])"
    using assms by simp
  also have "\<dots> = mset inputs"
    by (simp add: map_nth)
  finally have "mset ?ys = mset inputs" .
  then show ?thesis using sort_inputs_eq[OF assms] assms by simp
qed

theorem sort_inputs_permutation_witness:
  "length [10, 20, 30 :: nat] = length [''c'', ''a'', ''b'']
   \<and> sort_inputs [10, 20, 30 :: nat] [''c'', ''a'', ''b''] = Inr [30, 10, 20]
   \<and> (\<exists>ys. sort_inputs [10, 20, 30 :: nat] [''c'', ''a'', ''b''] = Inr ys
          \<and> mset ys = mset [10, 20, 30] \<and> length ys = length [10, 20, 30 :: nat])"
proof -
  have l: "length [10, 20, 30 :: nat] = length [''c'', ''a'', ''b'']" by simp
  have "sort_inputs [10, 20, 30 :: nat] [''c'', ''a'', ''b''] = Inr [30, 10, 20]"
    by (simp add: sort_inputs_def getitem_def)
  with l sort_inputs_permutation[OF l] show ?thesis by blast
qed

text \<open>
  C5. A call whose tensors come sorted by input name hands them to the pipeline in the
  order in which the predictor declares its inputs. In particular, when the predictor
  declares \<open>[b, a]\<close> and the caller supplies the tensor of \<open>a\<close> and then the tensor of
  \<open>b\<close>, the pipeline receives the tensor of \<open>b\<close> and then the tensor of \<open>a\<close>.
\<close>

theorem call_reorders_to_declared_order:
  "call e s (map g (sort (get_input_names (si_predictor s))))
     = (case infer e s (map g (get_input_names (si_predictor s))) of
          (pred, s') \<Rightarrow> (Inr pred, s'))
   \<and> (get_input_names (si_predictor s) = [''b'', ''a'']
        \<longrightarrow> call e s [ta, tb] = (case infer e s [tb, ta] of (pred, s') \<Rightarrow> (Inr pred, s')))"
proof -
  have gen: "call e s (map h (sort (get_input_names (si_predictor s))))
     = (case infer e s (map h (get_input_names (si_predictor s))) of
          (pred, s') \<Rightarrow> (Inr pred, s'))" for h
    by (simp add: call_def sort_inputs_sorted_by_name ascontiguousarray_def comp_def)
  have "call e s [ta, tb] = (case infer e s [tb, ta] of (pred, s') \<Rightarrow> (Inr pred, s'))"
    if n: "get_input_names (si_predictor s) = [''b'', ''a'']"
    using gen[of "\<lambda>name. if name = ''a'' then ta else tb"] by (simp add: n)
  with gen show ?thesis by blast
qed

theorem call_reorders_to_declared_order_witness:
  "get_input_names (si_predictor ex_facade) = [''b'', ''a'']
   \<and> call ex_env ex_facade [ex_array 1, ex_array 2]
       = (case infer ex_env ex_facade [ex_array 2, ex_array 1] of
            (pred, s') \<Rightarrow> (Inr pred, s'))
   \<and> pred_calls (si_predictor (snd (infer ex_env ex_facade [ex_array 2, ex_array 1])))
       = [RunTensors [Tensor (''cpu'', None) (ex_array 2), Tensor (''cpu'', None) (ex_array 1)]]"
proof -
  have n: "get_input_names (si_predictor ex_facade) = [''b'', ''a'']"
    by (simp add: ex_facade_def ex_env_def create_predictor_def get_input_names_def keys_def)
  have "pred_calls (si_predictor (snd (infer ex_env ex_facade [ex_array 2, ex_array 1])))
       = [RunTensors [Tensor (''cpu'', None) (ex_array 2), Tensor (''cpu'', None) (ex_array 1)]]"
    by (simp add: infer_def ex_facade_def create_predictor_def native_def Let_def)
  with n call_reorders_to_declared_order[of ex_env ex_facade "\<lambda>name. ex_array 0"
      "ex_array 1" "ex_array 2"]
  show ?thesis by blast
qed

text \<open>
  C6. A call whose number of tensors differs from the number of declared input names
  raises the input-count error and leaves the facade as it was: the pipeline is not
  entered, the predictor records no call, and a later call behaves as if the failed one
  had not been made.
\<close>

theorem call_input_count_mismatch:
  assumes "length x \<noteq> length (get_input_names (si_predictor s))"
  shows "call e s x
           = (Inl (ValueError_InputCount (length (get_input_names (si_predictor s)))
                 (length x)), s)
       \<and> pred_calls (si_predictor (snd (call e s x))) = pred_calls (si_predictor s)
       \<and> call e (snd (call e s x)) y = call e s y"
  using assms by (auto simp: call_def)

theorem call_input_count_mismatch_witness:
  "length [ex_array 1] \<noteq> length (get_input_names (si_predictor ex_facade))
   \<and> call ex_env ex_facade [ex_array 1] = (Inl (ValueError_InputCount 2 1), ex_facade)
   \<and> pred_calls (si_predictor (snd (call ex_env ex_facade [ex_array 1]))) = []
   \<and> call ex_env (snd (call ex_env ex_facade [ex_array 1])) [ex_array 1, ex_array 2]
       = call ex_env ex_facade [ex_array 1, ex_array 2]"
proof -
  have n: "get_input_names (si_predictor ex_facade) = [''b'', ''a'']"
    by (simp add: ex_facade_def ex_env_def create_predictor_def get_input_names_def keys_def)
  then have l: "length [ex_array 1] \<noteq> length (get_input_names (si_predictor ex_facade))"
    by simp
  have c: "pred_calls (si_predictor ex_facade) = []"
    by (simp add: ex_facade_def create_predictor_def)
  from call_input_count_mismatch[OF l, of ex_env "[ex_array 1, ex_array 2]"] l n c
  show ?thesis by simp
qed

section \<open>The shape-range calibrator (C1, C2)\<close>

lemma dict_set_append: "k \<notin> set (keys d) \<Longrightarrow> dict_set k v d = d @ [(k, v)]"
  by (induction d) (auto simp: keys_def)

lemma fold_native: "pred_calls (fold (\<lambda>(name, arr). native (f name arr)) arrs p)
   = pred_calls p @ concat (map (\<lambda>(name, arr). f name arr) arrs)"
  by (induction arrs arbitrary: p) (auto simp: native_def)

lemma feed_calls_eq: "pred_calls (feed arrs p) = pred_calls p @ feed_calls arrs"
  by (simp add: feed_def feed_calls_def native_def fold_native)

lemma supported_conv: "spec_supported_kind (pd_kind t) \<Longrightarrow> \<exists>d. pd_dtype_to_np_dtype t = Inr d"
  by (cases t) (simp_all add: pd_dtype_to_np_dtype_def)

lemma make_arrs_ok:
  assumes "distinct (keys ds)"
    and "set (keys ds) \<inter> set (keys a) = {}"
    and "keys b = keys a" and "keys c = keys a"
    and "\<And>name. name \<in> set (keys ds) \<Longrightarrow>
           \<exists>t. handle_type p name = Inr t \<and> spec_supported_kind (pd_kind t)"
    and "data_fits data ds"
  shows "\<exists>A B C. make_arrs p data ds (a, b, c) = Inr (a @ A, b @ B, c @ C)
           \<and> shapes_of A = map (\<lambda>(name, s0, s1, s2). (name, s0)) ds
           \<and> shapes_of B = map (\<lambda>(name, s0, s1, s2). (name, s1)) ds
           \<and> shapes_of C = map (\<lambda>(name, s0, s1, s2). (name, s2)) ds"
  using assms
proof (induction ds arbitrary: a b c)
  case Nil
  then show ?case by (simp add: shapes_of_def)
next
  case (Cons item ds)
  obtain name s0 s1 s2 where item: "item = (name, s0, s1, s2)" by (cases item) auto
  from Cons.prems(5)[of name] item obtain t where
    t: "handle_type p name = Inr t" "spec_supported_kind (pd_kind t)"
    by (auto simp: keys_def)
  then obtain dt where dt: "pd_dtype_to_np_dtype t = Inr dt" using supported_conv by blast
  have fresh: "name \<notin> set (keys a)" "name \<notin> set (keys b)" "name \<notin> set (keys c)"
    using Cons.prems(2,3,4) item by (auto simp: keys_def)
  define x0 x1 x2 where
    "x0 = (case map_of data name of None \<Rightarrow> np_ones s0 dt
            | Some (d0, d1, d2) \<Rightarrow> \<lparr>arr_shape = s0, arr_dtype = dt, arr_data = d0\<rparr>)"
    and "x1 = (case map_of data name of None \<Rightarrow> np_ones s1 dt
            | Some (d0, d1, d2) \<Rightarrow> \<lparr>arr_shape = s1, arr_dtype = dt, arr_data = d1\<rparr>)"
    and "x2 = (case map_of data name of None \<Rightarrow> np_ones s2 dt
            | Some (d0, d1, d2) \<Rightarrow> \<lparr>arr_shape = s2, arr_dtype = dt, arr_data = d2\<rparr>)"
  have sh: "arr_shape x0 = s0" "arr_shape x1 = s1" "arr_shape x2 = s2"
    by (auto simp: x0_def x1_def x2_def np_ones_def split: option.splits)
  have step: "make_arrs p data (item # ds) (a, b, c)
      = make_arrs p data ds (a @ [(name, x0)], b @ [(name, x1)], c @ [(name, x2)])"
    using t dt fresh Cons.prems(6)
    by (auto simp: item data_fits_def np_array_reshape_def dict_set_append x0_def x1_def x2_def
             split: option.splits)
  have "\<exists>A B C. make_arrs p data ds (a @ [(name, x0)], b @ [(name, x1)], c @ [(name, x2)])
           = Inr ((a @ [(name, x0)]) @ A, (b @ [(name, x1)]) @ B, (c @ [(name, x2)]) @ C)
           \<and> shapes_of A = map (\<lambda>(name, s0, s1, s2). (name, s0)) ds
           \<and> shapes_of B = map (\<lambda>(name, s0, s1, s2). (name, s1)) ds
           \<and> shapes_of C = map (\<lambda>(name, s0, s1, s2). (name, s2)) ds"
  proof (rule Cons.IH)
    show "distinct (keys ds)" using Cons.prems(1) by (simp add: keys_def)
    show "set (keys ds) \<inter> set (keys (a @ [(name, x0)])) = {}"
      using Cons.prems(1,2) item by (auto simp: keys_def)
    show "keys (b @ [(name, x1)]) = keys (a @ [(name, x0)])"
      using Cons.prems(3) by (simp add: keys_def)
    show "keys (c @ [(name, x2)]) = keys (a @ [(name, x0)])"
      using Cons.prems(4) by (simp add: keys_def)
    show "\<And>n. n \<in> set (keys ds) \<Longrightarrow>
           \<exists>t. handle_type p n = Inr t \<and> spec_supported_kind (pd_kind t)"
      using Cons.prems(5) by (simp add: keys_def)
    show "data_fits data ds" using Cons.prems(6) by (simp add: data_fits_def)
  qed
  then obtain A B C where
    r: "make_arrs p data ds (a @ [(name, x0)], b @ [(name, x1)], c @ [(name, x2)])
           = Inr ((a @ [(name, x0)]) @ A, (b @ [(name, x1)]) @ B, (c @ [(name, x2)]) @ C)"
    and s: "shapes_of A = map (\<lambda>(name, s0, s1, s2). (name, s0)) ds"
       "shapes_of B = map (\<lambda>(name, s0, s1, s2). (name, s1)) ds"
       "shapes_of C = map (\<lambda>(name, s0, s1, s2). (name, s2)) ds"
    by blast
  show ?case
  proof (intro exI conjI)
    show "make_arrs p data (item # ds) (a, b, c)
       = Inr (a @ ((name, x0) # A), b @ ((name, x1) # B), c @ ((name, x2) # C))"
      using step r by simp
    show "shapes_of ((name, x0) # A) = map (\<lambda>(name, s0, s1, s2). (name, s0)) (item # ds)"
      using s sh by (simp add: shapes_of_def item)
    show "shapes_of ((name, x1) # B) = map (\<lambda>(name, s0, s1, s2). (name, s1)) (item # ds)"
      using s sh by (simp add: shapes_of_def item)
    show "shapes_of ((name, x2) # C) = map (\<lambda>(name, s0, s1, s2). (name, s2)) (item # ds)"
      using s sh by (simp add: shapes_of_def item)
  qed
qed

lemma count_run_feed_calls: "count_list (feed_calls arrs) Run = 1"
proof -
  have "count_list (concat (map (\<lambda>(name, arr).
          [Reshape name (arr_shape arr), CopyFromCpu name arr]) arrs)) Run = 0"
    by (induction arrs) auto
  then show ?thesis by (simp add: feed_calls_def)
qed

lemma handle_type_supported:
  assumes "types_supported (pred_inputs p)" and "name \<in> set (keys (pred_inputs p))"
  shows "\<exists>t. handle_type p name = Inr t \<and> spec_supported_kind (pd_kind t)"
proof -
  from assms(2) obtain t where t: "map_of (pred_inputs p) name = Some t"
    by (metis keys_def map_of_eq_None_iff not_Some_eq set_map)
  then have "(name, t) \<in> set (pred_inputs p)" by (rule map_of_SomeD)
  with assms(1) have "spec_supported_kind (pd_kind t)"
    by (auto simp: types_supported_def list_all_iff)
  with t show ?thesis by (simp add: handle_type_def)
qed

lemma collect_body_validated:
  assumes "distinct (keys ds)"
    and "set (keys ds) = set (keys (model_inputs e))"
    and "set (keys (sample_data dd)) \<subseteq> set (keys (model_inputs e))"
    and "types_supported (model_inputs e)"
    and "data_fits (sample_data dd) ds"
  shows "\<exists>A B C p.
           collect_body e model_file model_params gpu_id path (Some ds) dd w
             = (Inr (), p, w\<lparr>calibrations := calibrations w @ [pred_calls p]\<rparr>)
         \<and> pred_calls p = feed_calls A @ feed_calls B @ feed_calls B @ feed_calls C
         \<and> shapes_of A = map (\<lambda>(name, s0, s1, s2). (name, s0)) ds
         \<and> shapes_of B = map (\<lambda>(name, s0, s1, s2). (name, s1)) ds
         \<and> shapes_of C = map (\<lambda>(name, s0, s1, s2). (name, s2)) ds
         \<and> collect_path (pred_config p) = Some path"
proof -
  define cfg where "cfg = cfg_do [EnableUseGpu 100 gpu_id, CollectShapeRangeInfo path,
                           DisableGlogInfo] (Config model_file model_params)"
  define p0 where "p0 = create_predictor e cfg"
  have names: "get_input_names p0 = keys (model_inputs e)"
    by (simp add: p0_def get_input_names_def create_predictor_def)
  have inputs: "pred_inputs p0 = model_inputs e"
    by (simp add: p0_def create_predictor_def)
  have f1: "find (\<lambda>name. name \<notin> set (keys (model_inputs e))) (keys ds) = None"
    using assms(2) by (simp add: find_None_iff)
  have f2: "find (\<lambda>name. name \<notin> set (keys ds)) (keys (model_inputs e)) = None"
    using assms(2) by (simp add: find_None_iff)
  have f3: "find (\<lambda>name. name \<notin> set (keys (model_inputs e))) (keys (sample_data dd)) = None"
    using assms(3) by (auto simp: find_None_iff)
  have "\<exists>A B C. make_arrs p0 (sample_data dd) ds ([], [], []) = Inr ([] @ A, [] @ B, [] @ C)
           \<and> shapes_of A = map (\<lambda>(name, s0, s1, s2). (name, s0)) ds
           \<and> shapes_of B = map (\<lambda>(name, s0, s1, s2). (name, s1)) ds
           \<and> shapes_of C = map (\<lambda>(name, s0, s1, s2). (name, s2)) ds"
  proof (rule make_arrs_ok)
    show "distinct (keys ds)" by (rule assms(1))
    show "set (keys ds) \<inter> set (keys []) = {}" by (simp add: keys_def)
    show "keys [] = keys []" by (simp add: keys_def)
    show "keys [] = keys []" by (simp add: keys_def)
    show "\<And>name. name \<in> set (keys ds) \<Longrightarrow>
           \<exists>t. handle_type p0 name = Inr t \<and> spec_supported_kind (pd_kind t)"
      using handle_type_supported[of p0] assms(2,4) inputs by simp
    show "data_fits (sample_data dd) ds" by (rule assms(5))
  qed
  then obtain A B C where
    m: "make_arrs p0 (sample_data dd) ds ([], [], []) = Inr (A, B, C)"
    and s: "shapes_of A = map (\<lambda>(name, s0, s1, s2). (name, s0)) ds"
       "shapes_of B = map (\<lambda>(name, s0, s1, s2). (name, s1)) ds"
       "shapes_of C = map (\<lambda>(name, s0, s1, s2). (name, s2)) ds"
    by auto
  define p where "p = fold feed [A, B, B, C] p0"
  have calls: "pred_calls p = feed_calls A @ feed_calls B @ feed_calls B @ feed_calls C"
    by (simp add: p_def feed_calls_eq) (simp add: p0_def create_predictor_def)
  have pc: "pred_config (feed arrs q) = pred_config q" for arrs and q :: "'a predictor"
  proof -
    have "pred_config (fold (\<lambda>(name, arr).
            native [Reshape name (arr_shape arr), CopyFromCpu name arr]) arrs q) = pred_config q"
      by (induction arrs arbitrary: q) (auto simp: native_def)
    then show ?thesis by (simp add: feed_def native_def)
  qed
  have cp: "collect_path (pred_config p) = Some path"
    by (simp add: p_def pc) (simp add: p0_def create_predictor_def cfg_def cfg_do_def Config_def
          collect_path_def)
  have "collect_body e model_file model_params gpu_id path (Some ds) dd w
             = (Inr (), p, w\<lparr>calibrations := calibrations w @ [pred_calls p]\<rparr>)"
    unfolding collect_body_def Let_def
    by (simp add: cfg_def[symmetric] p0_def[symmetric] sample_data_def[symmetric] names f1 f2 f3 m
          p_def)
  with calls s cp show ?thesis by blast
qed

lemma collect_body_mismatch:
  assumes "set (keys ds) \<noteq> set (keys (model_inputs e))"
  shows "\<exists>err p.
           collect_body e model_file model_params gpu_id path (Some ds) dd w
             = (Inl err, p, w\<lparr>calibrations := calibrations w @ [[]]\<rparr>)
         \<and> pred_calls p = []
         \<and> ((\<exists>n. n \<in> set (keys ds) \<and> n \<notin> set (keys (model_inputs e))
                \<and> err = ValueError_InvalidInputName n ''dynamic_shapes'')
            \<or> (\<exists>n. n \<in> set (keys (model_inputs e)) \<and> n \<notin> set (keys ds)
                \<and> err = ValueError_InputNameNotFound n ''dynamic_shapes''))"
proof -
  define cfg where "cfg = cfg_do [EnableUseGpu 100 gpu_id, CollectShapeRangeInfo path,
                           DisableGlogInfo] (Config model_file model_params)"
  define p0 where "p0 = create_predictor e cfg"
  have names: "get_input_names p0 = keys (model_inputs e)"
    by (simp add: p0_def get_input_names_def create_predictor_def)
  have calls: "pred_calls p0 = []" by (simp add: p0_def create_predictor_def)
  show ?thesis
  proof (cases "find (\<lambda>name. name \<notin> set (keys (model_inputs e))) (keys ds)")
    case (Some n)
    then have n: "n \<in> set (keys ds)" "n \<notin> set (keys (model_inputs e))"
      by (auto simp: find_Some_iff)
    have "collect_body e model_file model_params gpu_id path (Some ds) dd w
       = (Inl (ValueError_InvalidInputName n ''dynamic_shapes''), p0,
          w\<lparr>calibrations := calibrations w @ [[]]\<rparr>)"
      unfolding collect_body_def Let_def
      by (simp add: cfg_def[symmetric] p0_def[symmetric] names Some calls)
    with n calls show ?thesis by blast
  next
    case None
    then have sub: "set (keys ds) \<subseteq> set (keys (model_inputs e))"
      by (auto simp: find_None_iff)
    with assms obtain m where "m \<in> set (keys (model_inputs e))" "m \<notin> set (keys ds)"
      by auto
    then obtain n where f: "find (\<lambda>name. name \<notin> set (keys ds)) (keys (model_inputs e)) = Some n"
      by (cases "find (\<lambda>name. name \<notin> set (keys ds)) (keys (model_inputs e))")
         (auto simp: find_None_iff)
    then have n: "n \<in> set (keys (model_inputs e))" "n \<notin> set (keys ds)"
      by (auto simp: find_Some_iff)
    have "collect_body e model_file model_params gpu_id path (Some ds) dd w
       = (Inl (ValueError_InputNameNotFound n ''dynamic_shapes''), p0,
          w\<lparr>calibrations := calibrations w @ [[]]\<rparr>)"
      unfolding collect_body_def Let_def
      by (simp add: cfg_def[symmetric] p0_def[symmetric] names None f calls)
    with n calls show ?thesis by blast
  qed
qed

lemma convert_trt_mismatch:
  assumes "set (keys ds) \<noteq> set (keys (model_inputs e))"
  shows "\<exists>err. convert_trt e name mode mf pf save (Some ds) w = (Inl err, w)
         \<and> ((\<exists>n. n \<in> set (keys ds) \<and> n \<notin> set (keys (model_inputs e))
                \<and> err = ValueError_InvalidInputName n ''trt_dynamic_shapes'')
            \<or> (\<exists>n. n \<in> set (keys (model_inputs e)) \<and> n \<notin> set (keys ds)
                \<and> err = ValueError_InputNameNotFound n ''trt_dynamic_shapes''))"
proof (cases "find (\<lambda>name. name \<notin> set (keys (model_inputs e))) (keys ds)")
  case (Some n)
  then have n: "n \<in> set (keys ds)" "n \<notin> set (keys (model_inputs e))"
    by (auto simp: find_Some_iff)
  have "convert_trt e name mode mf pf save (Some ds) w
       = (Inl (ValueError_InvalidInputName n ''trt_dynamic_shapes''), w)"
    by (simp add: convert_trt_def Some)
  with n show ?thesis by blast
next
  case None
  then have sub: "set (keys ds) \<subseteq> set (keys (model_inputs e))"
    by (auto simp: find_None_iff)
  with assms obtain m where "m \<in> set (keys (model_inputs e))" "m \<notin> set (keys ds)"
    by auto
  then obtain n where f: "find (\<lambda>name. name \<notin> set (keys ds)) (keys (model_inputs e)) = Some n"
    by (cases "find (\<lambda>name. name \<notin> set (keys ds)) (keys (model_inputs e))")
       (auto simp: find_None_iff)
  then have n: "n \<in> set (keys (model_inputs e))" "n \<notin> set (keys ds)"
    by (auto simp: find_Some_iff)
  have "convert_trt e name mode mf pf save (Some ds) w
       = (Inl (ValueError_InputNameNotFound n ''trt_dynamic_shapes''), w)"
    by (simp add: convert_trt_def None f)
  with n show ?thesis by blast
qed

text \<open>
  C1. A calibration run whose \<open>dynamic_shapes\<close> pass the name checks (with supported
  input types and sample data that fits the shapes) returns normally, and the calls it
  makes on the throwaway predictor are exactly four passes, each feeding every input and
  then running the predictor once: the minimum shapes, the optimum shapes, the optimum
  shapes again, the maximum shapes. The predictor runs four times in all.
\<close>

theorem calibration_feeds_min_opt_opt_max:
  assumes "distinct (keys ds)"
    and "set (keys ds) = set (keys (model_inputs e))"
    and "set (keys (sample_data dd)) \<subseteq> set (keys (model_inputs e))"
    and "types_supported (model_inputs e)"
    and "data_fits (sample_data dd) ds"
  shows "\<exists>min_arrs opt_arrs max_arrs p w'.
           collect_body e model_file model_params gpu_id path (Some ds) dd w = (Inr (), p, w')
         \<and> pred_calls p
             = feed_calls min_arrs @ feed_calls opt_arrs @ feed_calls opt_arrs @ feed_calls max_arrs
         \<and> shapes_of min_arrs = map (\<lambda>(name, s0, s1, s2). (name, s0)) ds
         \<and> shapes_of opt_arrs = map (\<lambda>(name, s0, s1, s2). (name, s1)) ds
         \<and> shapes_of max_arrs = map (\<lambda>(name, s0, s1, s2). (name, s2)) ds
         \<and> count_list (pred_calls p) Run = 4
         \<and> calibrations w' = calibrations w @ [pred_calls p]"
proof -
  from collect_body_validated[OF assms, of model_file model_params gpu_id path w]
  obtain A B C p where
    b: "collect_body e model_file model_params gpu_id path (Some ds) dd w
             = (Inr (), p, w\<lparr>calibrations := calibrations w @ [pred_calls p]\<rparr>)"
    and c: "pred_calls p = feed_calls A @ feed_calls B @ feed_calls B @ feed_calls C"
    and s: "shapes_of A = map (\<lambda>(name, s0, s1, s2). (name, s0)) ds"
       "shapes_of B = map (\<lambda>(name, s0, s1, s2). (name, s1)) ds"
       "shapes_of C = map (\<lambda>(name, s0, s1, s2). (name, s2)) ds"
    by blast
  have "count_list (pred_calls p) Run = 4"
    by (simp add: c count_run_feed_calls)
  with b c s show ?thesis by auto
qed

lemma ex_valid:
  "distinct (keys ex_shapes)"
  "set (keys ex_shapes) = set (keys (model_inputs ex_env))"
  "set (keys (sample_data (Some ex_data))) \<subseteq> set (keys (model_inputs ex_env))"
  "types_supported (model_inputs ex_env)"
  "data_fits (sample_data (Some ex_data)) ex_shapes"
  by (simp_all add: keys_def ex_shapes_def ex_env_def ex_data_def sample_data_def
        types_supported_def data_fits_def insert_commute)

theorem calibration_feeds_min_opt_opt_max_witness:
  "(distinct (keys ex_shapes)
    \<and> set (keys ex_shapes) = set (keys (model_inputs ex_env))
    \<and> set (keys (sample_data (Some ex_data))) \<subseteq> set (keys (model_inputs ex_env))
    \<and> types_supported (model_inputs ex_env)
    \<and> data_fits (sample_data (Some ex_data)) ex_shapes)
   \<and> (\<exists>min_arrs opt_arrs max_arrs p w'.
         collect_body ex_env ''m/inference.json'' ''m/inference.pdiparams'' (Some 0)
           ''m/.cache/paddle/shape_range_info.pbtxt'' (Some ex_shapes) (Some ex_data) ex_world
           = (Inr (), p, w')
       \<and> pred_calls p
           = feed_calls min_arrs @ feed_calls opt_arrs @ feed_calls opt_arrs @ feed_calls max_arrs
       \<and> shapes_of min_arrs = map (\<lambda>(name, s0, s1, s2). (name, s0)) ex_shapes
       \<and> shapes_of opt_arrs = map (\<lambda>(name, s0, s1, s2). (name, s1)) ex_shapes
       \<and> shapes_of max_arrs = map (\<lambda>(name, s0, s1, s2). (name, s2)) ex_shapes
       \<and> count_list (pred_calls p) Run = 4
       \<and> calibrations w' = calibrations ex_world @ [pred_calls p])"
  using ex_valid calibration_feeds_min_opt_opt_max[OF ex_valid, of "''m/inference.json''"
      "''m/inference.pdiparams''" "Some 0" "''m/.cache/paddle/shape_range_info.pbtxt''" ex_world]
  by blast

text \<open>
  C2. When the keys of \<open>dynamic_shapes\<close> and the input names the predictor declares
  differ as sets, in either direction, the calibrator and the accelerator compiler raise
  the input-name error: the calibration predictor has been fed nothing and has not run,
  no file is written, and the native compiler is not called.
\<close>

theorem input_name_mismatch_raises_first:
  assumes "set (keys ds) \<noteq> set (keys (model_inputs e))"
  shows "(\<exists>err w'.
            collect_trt_shape_range_info e model_file model_params gpu_id path (Some ds) dd w
              = (Inl err, w')
          \<and> input_name_mismatch (keys ds) (keys (model_inputs e)) err
          \<and> calibrations w' = calibrations w @ [[]]
          \<and> files w' = files w \<and> conversions w' = conversions w)
       \<and> (\<exists>err. convert_trt e name mode pp_model_file pp_params_file save (Some ds) w
                   = (Inl err, w)
               \<and> input_name_mismatch (keys ds) (keys (model_inputs e)) err)"
proof -
  from collect_body_mismatch[OF assms, of model_file model_params gpu_id path dd w]
  obtain err p where
    b: "collect_body e model_file model_params gpu_id path (Some ds) dd w
          = (Inl err, p, w\<lparr>calibrations := calibrations w @ [[]]\<rparr>)"
    and m: "input_name_mismatch (keys ds) (keys (model_inputs e)) err"
    by auto
  have "collect_trt_shape_range_info e model_file model_params gpu_id path (Some ds) dd w
          = (Inl err, w\<lparr>calibrations := calibrations w @ [[]]\<rparr>)"
    by (simp add: collect_trt_shape_range_info_def b)
  with m have first: "\<exists>err w'.
            collect_trt_shape_range_info e model_file model_params gpu_id path (Some ds) dd w
              = (Inl err, w')
          \<and> input_name_mismatch (keys ds) (keys (model_inputs e)) err
          \<and> calibrations w' = calibrations w @ [[]]
          \<and> files w' = files w \<and> conversions w' = conversions w"
    by simp
  from convert_trt_mismatch[OF assms, of name mode pp_model_file pp_params_file save w]
  have "\<exists>err. convert_trt e name mode pp_model_file pp_params_file save (Some ds) w
                   = (Inl err, w)
               \<and> input_name_mismatch (keys ds) (keys (model_inputs e)) err"
    by auto
  with first show ?thesis by blast
qed

theorem input_name_mismatch_raises_first_witness:
  "set (keys [(''a'', [1], [2], [4::nat])]) \<noteq> set (keys (model_inputs ex_env))
   \<and> set (keys ((''c'', [1], [2], [4]) # ex_shapes)) \<noteq> set (keys (model_inputs ex_env))
   \<and> fst (collect_trt_shape_range_info ex_env ''m/inference.json'' ''m/inference.pdiparams''
            (Some 0) ''m/shape_range_info.pbtxt'' (Some [(''a'', [1], [2], [4])]) None ex_world)
       = Inl (ValueError_InputNameNotFound ''b'' ''dynamic_shapes'')
   \<and> fst (convert_trt ex_env ''det'' ''trt_fp16'' ''m/inference.json''
            ''m/inference.pdiparams'' ''m/.cache/paddle/trt/inference''
            (Some ((''c'', [1], [2], [4]) # ex_shapes)) ex_world)
       = Inl (ValueError_InvalidInputName ''c'' ''trt_dynamic_shapes'')
   \<and> (\<exists>err w'.
         collect_trt_shape_range_info ex_env ''m/inference.json'' ''m/inference.pdiparams''
           (Some 0) ''m/shape_range_info.pbtxt'' (Some [(''a'', [1], [2], [4])]) None ex_world
           = (Inl err, w')
       \<and> calibrations w' = calibrations ex_world @ [[]] \<and> files w' = files ex_world)
   \<and> (\<exists>err. convert_trt ex_env ''det'' ''trt_fp16'' ''m/inference.json''
            ''m/inference.pdiparams'' ''m/.cache/paddle/trt/inference''
            (Some ((''c'', [1], [2], [4]) # ex_shapes)) ex_world = (Inl err, ex_world))"
proof -
  have "''b'' \<notin> set (keys [(''a'', [1], [2], [4::nat])])"
    by (simp add: keys_def)
  moreover have "''b'' \<in> set (keys (model_inputs ex_env))"
    by (simp add: keys_def ex_env_def)
  ultimately have h1:
    "set (keys [(''a'', [1], [2], [4::nat])]) \<noteq> set (keys (model_inputs ex_env))"
    by blast
  have "''c'' \<in> set (keys ((''c'', [1], [2], [4]) # ex_shapes))"
    by (simp add: keys_def)
  moreover have "''c'' \<notin> set (keys (model_inputs ex_env))"
    by (simp add: keys_def ex_env_def)
  ultimately have h2:
    "set (keys ((''c'', [1], [2], [4]) # ex_shapes)) \<noteq> set (keys (model_inputs ex_env))"
    by blast
  have e1: "fst (collect_trt_shape_range_info ex_env ''m/inference.json''
            ''m/inference.pdiparams'' (Some 0) ''m/shape_range_info.pbtxt''
            (Some [(''a'', [1], [2], [4])]) None ex_world)
       = Inl (ValueError_InputNameNotFound ''b'' ''dynamic_shapes'')"
    by (simp add: collect_trt_shape_range_info_def collect_body_def keys_def ex_env_def
          create_predictor_def get_input_names_def)
  have e2: "fst (convert_trt ex_env ''det'' ''trt_fp16'' ''m/inference.json''
            ''m/inference.pdiparams'' ''m/.cache/paddle/trt/inference''
            (Some ((''c'', [1], [2], [4]) # ex_shapes)) ex_world)
       = Inl (ValueError_InvalidInputName ''c'' ''trt_dynamic_shapes'')"
    by (simp add: convert_trt_def keys_def ex_env_def ex_shapes_def)
  from input_name_mismatch_raises_first[OF h1]
  have c1: "\<exists>err w'.
         collect_trt_shape_range_info ex_env ''m/inference.json'' ''m/inference.pdiparams''
           (Some 0) ''m/shape_range_info.pbtxt'' (Some [(''a'', [1], [2], [4])]) None ex_world
           = (Inl err, w')
       \<and> calibrations w' = calibrations ex_world @ [[]] \<and> files w' = files ex_world"
    by blast
  from input_name_mismatch_raises_first[OF h2]
  have c2: "\<exists>err. convert_trt ex_env ''det'' ''trt_fp16'' ''m/inference.json''
            ''m/inference.pdiparams'' ''m/.cache/paddle/trt/inference''
            (Some ((''c'', [1], [2], [4]) # ex_shapes)) ex_world = (Inl err, ex_world)"
    by blast
  from h1 h2 e1 e2 c1 c2 show ?thesis by (intro conjI)
qed

section \<open>The shape range file (C4, C3)\<close>

lemma feed_config: "pred_config (feed arrs q) = pred_config q"
proof -
  have "pred_config (fold (\<lambda>(name, arr).
          native [Reshape name (arr_shape arr), CopyFromCpu name arr]) arrs q) = pred_config q"
    by (induction arrs arbitrary: q) (auto simp: native_def)
  then show ?thesis by (simp add: feed_def native_def)
qed

lemma feeds_or_runs_feed_calls: "list_all feeds_or_runs (feed_calls arrs)"
  by (induction arrs) (auto simp: feed_calls_def)

lemma collect_body_success:
  assumes "collect_body e model_file model_params gpu_id path ds dd w = (Inr (), p, w')"
  shows "\<exists>A B C. pred_calls p = feed_calls A @ feed_calls B @ feed_calls B @ feed_calls C"
    and "collect_path (pred_config p) = Some path"
    and "w' = w\<lparr>calibrations := calibrations w @ [pred_calls p]\<rparr>"
proof -
  define cfg where "cfg = cfg_do [EnableUseGpu 100 gpu_id, CollectShapeRangeInfo path,
                           DisableGlogInfo] (Config model_file model_params)"
  define p0 where "p0 = create_predictor e cfg"
  define rp where "rp =
            (case ds of
               None \<Rightarrow> (Inl TypeError_NoneNotIterable, p0)
             | Some ds \<Rightarrow>
            (case find (\<lambda>name. name \<notin> set (get_input_names p0)) (keys ds) of
               Some name \<Rightarrow>
                 (Inl (ValueError_InvalidInputName name ''dynamic_shapes''), p0)
             | None \<Rightarrow>
            (case find (\<lambda>name. name \<notin> set (keys ds)) (get_input_names p0) of
               Some name \<Rightarrow>
                 (Inl (ValueError_InputNameNotFound name ''dynamic_shapes''), p0)
             | None \<Rightarrow>
            (case find (\<lambda>name. name \<notin> set (get_input_names p0)) (keys (sample_data dd)) of
               Some name \<Rightarrow>
                 (Inl (ValueError_InvalidInputName name ''dynamic_shape_input_data''),
                  p0)
             | None \<Rightarrow>
            (case make_arrs p0 (sample_data dd) ds ([], [], []) of
               Inl err \<Rightarrow> (Inl err, p0)
             | Inr (min_arrs, opt_arrs, max_arrs) \<Rightarrow>
                 (Inr (), fold feed [min_arrs, opt_arrs, opt_arrs, max_arrs] p0))))))"
  have body: "collect_body e model_file model_params gpu_id path ds dd w
     = (fst rp, snd rp, w\<lparr>calibrations := calibrations w @ [pred_calls (snd rp)]\<rparr>)"
    unfolding collect_body_def Let_def rp_def p0_def cfg_def sample_data_def
    by (simp add: case_prod_beta)
  with assms have r: "fst rp = Inr ()" and p: "snd rp = p"
    and w: "w' = w\<lparr>calibrations := calibrations w @ [pred_calls p]\<rparr>"
    by auto
  from r obtain A B C where "rp = (Inr (), fold feed [A, B, B, C] p0)"
    unfolding rp_def by (auto split: option.splits sum.splits)
  with p have pe: "p = fold feed [A, B, B, C] p0" by simp
  have "pred_calls p = feed_calls A @ feed_calls B @ feed_calls B @ feed_calls C"
    by (simp add: pe feed_calls_eq) (simp add: p0_def create_predictor_def)
  then show "\<exists>A B C. pred_calls p = feed_calls A @ feed_calls B @ feed_calls B @ feed_calls C"
    by blast
  show "collect_path (pred_config p) = Some path"
    by (simp add: pe feed_config)
       (simp add: p0_def create_predictor_def cfg_def cfg_do_def Config_def collect_path_def)
  show "w' = w\<lparr>calibrations := calibrations w @ [pred_calls p]\<rparr>" by (rule w)
qed

lemma collect_success:
  assumes "collect_trt_shape_range_info e model_file model_params gpu_id path ds dd w
             = (Inr u, w2)"
  shows "\<exists>calls. w2 = w\<lparr>calibrations := calibrations w @ [calls],
                          files := insert path (files w)\<rparr>
           \<and> count_list calls Run = 4"
proof -
  obtain r p w' where b:
    "collect_body e model_file model_params gpu_id path ds dd w = (r, p, w')"
    by (metis prod_cases3)
  with assms have r: "r = Inr ()" and w2: "w2 = predictor_del p w'"
    by (auto simp: collect_trt_shape_range_info_def split: sum.splits)
  from collect_body_success[OF b[unfolded r]] obtain A B C where
    c: "pred_calls p = feed_calls A @ feed_calls B @ feed_calls B @ feed_calls C"
    and cp: "collect_path (pred_config p) = Some path"
    and w': "w' = w\<lparr>calibrations := calibrations w @ [pred_calls p]\<rparr>"
    by blast
  have "count_list (pred_calls p) Run = 4" by (simp add: c count_run_feed_calls)
  moreover have "w2 = w\<lparr>calibrations := calibrations w @ [pred_calls p],
                          files := insert path (files w)\<rparr>"
    by (simp add: w2 predictor_del_def cp w')
  ultimately show ?thesis by blast
qed

text \<open>
  C4. The claim asks for an explicit flush before the function returns. The source has
  none: when the last statement of a successful calibration has run, the file system is
  as it was, and the predictor has only been fed and run. The file comes to exist through
  the finalizer of the predictor, which runs when the function returns.
\<close>

theorem calibration_file_written_by_finalizer:
  assumes "collect_body e model_file model_params gpu_id path ds dd w = (Inr (), p, w')"
  shows "files w' = files w \<and> fs_ops w' = fs_ops w
       \<and> list_all feeds_or_runs (pred_calls p)
       \<and> collect_trt_shape_range_info e model_file model_params gpu_id path ds dd w
           = (Inr (), predictor_del p w')
       \<and> files (predictor_del p w') = insert path (files w)"
proof -
  from collect_body_success[OF assms] obtain A B C where
    c: "pred_calls p = feed_calls A @ feed_calls B @ feed_calls B @ feed_calls C"
    and cp: "collect_path (pred_config p) = Some path"
    and w': "w' = w\<lparr>calibrations := calibrations w @ [pred_calls p]\<rparr>"
    by blast
  have "list_all feeds_or_runs (pred_calls p)"
    by (simp add: c feeds_or_runs_feed_calls)
  moreover have "collect_trt_shape_range_info e model_file model_params gpu_id path ds dd w
           = (Inr (), predictor_del p w')"
    by (simp add: collect_trt_shape_range_info_def assms)
  moreover have "files (predictor_del p w') = insert path (files w)"
    by (simp add: predictor_del_def cp w')
  ultimately show ?thesis by (simp add: w')
qed

lemma ex_body:
  "\<exists>p. collect_body ex_env ''m/inference.json'' ''m/inference.pdiparams'' (Some 0)
          ''m/.cache/paddle/shape_range_info.pbtxt'' (Some ex_shapes) (Some ex_data) ex_world
        = (Inr (), p, ex_world\<lparr>calibrations := calibrations ex_world @ [pred_calls p]\<rparr>)"
  using collect_body_validated[OF ex_valid, of "''m/inference.json''"
      "''m/inference.pdiparams''" "Some 0" "''m/.cache/paddle/shape_range_info.pbtxt''" ex_world]
  by blast

theorem calibration_file_written_by_finalizer_witness:
  "\<exists>p w'. collect_body ex_env ''m/inference.json'' ''m/inference.pdiparams'' (Some 0)
          ''m/.cache/paddle/shape_range_info.pbtxt'' (Some ex_shapes) (Some ex_data) ex_world
        = (Inr (), p, w')
     \<and> files w' = files ex_world \<and> fs_ops w' = fs_ops ex_world
     \<and> list_all feeds_or_runs (pred_calls p)
     \<and> collect_trt_shape_range_info ex_env ''m/inference.json'' ''m/inference.pdiparams''
          (Some 0) ''m/.cache/paddle/shape_range_info.pbtxt'' (Some ex_shapes) (Some ex_data)
          ex_world = (Inr (), predictor_del p w')
     \<and> files (predictor_del p w')
         = insert ''m/.cache/paddle/shape_range_info.pbtxt'' (files ex_world)"
proof -
  from ex_body obtain p w' where
    b: "collect_body ex_env ''m/inference.json'' ''m/inference.pdiparams'' (Some 0)
          ''m/.cache/paddle/shape_range_info.pbtxt'' (Some ex_shapes) (Some ex_data) ex_world
        = (Inr (), p, w')"
    by blast
  from b calibration_file_written_by_finalizer[OF b] show ?thesis by blast
qed

theorem calibration_explicit_flush_counterexample:
  "fst (collect_body ex_env ''m/inference.json'' ''m/inference.pdiparams'' (Some 0)
          ''m/.cache/paddle/shape_range_info.pbtxt'' (Some ex_shapes) (Some ex_data) ex_world)
     = Inr ()
   \<and> ''m/.cache/paddle/shape_range_info.pbtxt''
       \<notin> files (snd (snd (collect_body ex_env ''m/inference.json'' ''m/inference.pdiparams''
            (Some 0) ''m/.cache/paddle/shape_range_info.pbtxt'' (Some ex_shapes) (Some ex_data)
            ex_world)))
   \<and> fs_ops (snd (snd (collect_body ex_env ''m/inference.json'' ''m/inference.pdiparams''
            (Some 0) ''m/.cache/paddle/shape_range_info.pbtxt'' (Some ex_shapes) (Some ex_data)
            ex_world))) = []"
proof -
  from ex_body obtain p where
    b: "collect_body ex_env ''m/inference.json'' ''m/inference.pdiparams'' (Some 0)
          ''m/.cache/paddle/shape_range_info.pbtxt'' (Some ex_shapes) (Some ex_data) ex_world
        = (Inr (), p, ex_world\<lparr>calibrations := calibrations ex_world @ [pred_calls p]\<rparr>)"
    by blast
  show ?thesis by (simp add: b) (simp add: ex_world_def)
qed

lemma configure_trt_profile:
  assumes "profile_route e opt"
  shows "configure_trt e opt prefix model_file params_file cache_dir w
     = configure_dynamic_shapes e opt model_file params_file cache_dir
         (trt_base_config opt model_file params_file cache_dir) w"
  using assms
  by (auto simp: configure_trt_def profile_route_def trt_base_config_def)

lemma configure_skip:
  assumes "profile_route e opt"
    and "shape_range_path opt cache_dir \<in> files w"
    and "\<not> trt_discard_cached_shape_range_info opt"
  shows "configure_trt e opt prefix model_file params_file cache_dir w
     = (Inr (cfg_do [EnableTunedTensorrtDynamicShape (shape_range_path opt cache_dir)
                       (trt_allow_rebuild_at_runtime opt)]
               (trt_base_config opt model_file params_file cache_dir)),
        log (Info_AlreadyExists (shape_range_path opt cache_dir)) w)"
proof -
  have "trt_collect_shape_range_info opt" using assms(1) by (simp add: profile_route_def)
  then show ?thesis
    unfolding configure_trt_profile[OF assms(1)] configure_dynamic_shapes_def
      shape_range_path_def[symmetric] Let_def
    using assms(2,3) by simp
qed

lemma configure_discard:
  assumes "profile_route e opt"
    and "shape_range_path opt cache_dir \<in> files w"
    and "trt_discard_cached_shape_range_info opt"
  shows "configure_trt e opt prefix model_file params_file cache_dir w
     = (case collect_trt_shape_range_info e model_file params_file (device_id opt)
               (shape_range_path opt cache_dir) (trt_dynamic_shapes opt)
               (trt_dynamic_shape_input_data opt)
               (log (Info_RemovedWillRecollect (shape_range_path opt cache_dir))
                  (w\<lparr>files := files w - {shape_range_path opt cache_dir},
                     fs_ops := fs_ops w @ [Unlink (shape_range_path opt cache_dir)]\<rparr>)) of
          (Inl err, w2) \<Rightarrow> (Inl err, w2)
        | (Inr u, w2) \<Rightarrow>
            (Inr (cfg_do [EnableTunedTensorrtDynamicShape (shape_range_path opt cache_dir)
                           (trt_allow_rebuild_at_runtime opt)]
                   (trt_base_config opt model_file params_file cache_dir)), w2))"
proof -
  have "trt_collect_shape_range_info opt" using assms(1) by (simp add: profile_route_def)
  then show ?thesis
    unfolding configure_trt_profile[OF assms(1)] configure_dynamic_shapes_def
      shape_range_path_def[symmetric] Let_def
    using assms(2,3) by (simp split: prod.splits sum.splits)
qed

lemma configure_absent:
  assumes "profile_route e opt"
    and "shape_range_path opt cache_dir \<notin> files w"
  shows "configure_trt e opt prefix model_file params_file cache_dir w
     = (case collect_trt_shape_range_info e model_file params_file (device_id opt)
               (shape_range_path opt cache_dir) (trt_dynamic_shapes opt)
               (trt_dynamic_shape_input_data opt)
               (log (Info_WillCollect (shape_range_path opt cache_dir))
                  (w\<lparr>fs_ops := fs_ops w @ [MkdirParentOf (shape_range_path opt cache_dir)]\<rparr>)) of
          (Inl err, w2) \<Rightarrow> (Inl err, w2)
        | (Inr u, w2) \<Rightarrow>
            (Inr (cfg_do [EnableTunedTensorrtDynamicShape (shape_range_path opt cache_dir)
                           (trt_allow_rebuild_at_runtime opt)]
                   (trt_base_config opt model_file params_file cache_dir)), w2))"
proof -
  have "trt_collect_shape_range_info opt" using assms(1) by (simp add: profile_route_def)
  then show ?thesis
    unfolding configure_trt_profile[OF assms(1)] configure_dynamic_shapes_def
      shape_range_path_def[symmetric] Let_def
    using assms(2) by (simp split: prod.splits sum.splits)
qed

lemma configure_success_file:
  assumes "profile_route e opt"
    and "configure_trt e opt prefix model_file params_file cache_dir w = (Inr cfg, w1)"
  shows "shape_range_path opt cache_dir \<in> files w1"
proof (cases "shape_range_path opt cache_dir \<in> files w")
  case False
  from assms(2) obtain u where
    "collect_trt_shape_range_info e model_file params_file (device_id opt)
               (shape_range_path opt cache_dir) (trt_dynamic_shapes opt)
               (trt_dynamic_shape_input_data opt)
               (log (Info_WillCollect (shape_range_path opt cache_dir))
                  (w\<lparr>fs_ops := fs_ops w @ [MkdirParentOf (shape_range_path opt cache_dir)]\<rparr>))
       = (Inr u, w1)"
    unfolding configure_absent[OF assms(1) False]
    by (auto split: prod.splits sum.splits)
  from collect_success[OF this] show ?thesis by auto
next
  case True
  show ?thesis
  proof (cases "trt_discard_cached_shape_range_info opt")
    case False
    with assms True show ?thesis by (auto simp: configure_skip log_def)
  next
    case d: True
    from assms(2) obtain u where
      "collect_trt_shape_range_info e model_file params_file (device_id opt)
               (shape_range_path opt cache_dir) (trt_dynamic_shapes opt)
               (trt_dynamic_shape_input_data opt)
               (log (Info_RemovedWillRecollect (shape_range_path opt cache_dir))
                  (w\<lparr>files := files w - {shape_range_path opt cache_dir},
                     fs_ops := fs_ops w @ [Unlink (shape_range_path opt cache_dir)]\<rparr>))
       = (Inr u, w1)"
      unfolding configure_discard[OF assms(1) True d]
      by (auto split: prod.splits sum.splits)
    from collect_success[OF this] show ?thesis by auto
  qed
qed

lemma collect_validated:
  assumes "calibration_input_ok e opt"
  shows "\<exists>calls. collect_trt_shape_range_info e model_file params_file gpu_id path
            (trt_dynamic_shapes opt) (trt_dynamic_shape_input_data opt) w
          = (Inr (), w\<lparr>calibrations := calibrations w @ [calls],
                        files := insert path (files w)\<rparr>)
        \<and> count_list calls Run = 4"
proof -
  from assms obtain ds where ds: "trt_dynamic_shapes opt = Some ds"
    and v: "distinct (keys ds)" "set (keys ds) = set (keys (model_inputs e))"
      "set (keys (sample_data (trt_dynamic_shape_input_data opt)))
                \<subseteq> set (keys (model_inputs e))"
      "types_supported (model_inputs e)"
      "data_fits (sample_data (trt_dynamic_shape_input_data opt)) ds"
    by (auto simp: calibration_input_ok_def split: option.splits)
  from collect_body_validated[OF v, of model_file params_file gpu_id path w]
  obtain p where b: "collect_body e model_file params_file gpu_id path (Some ds)
        (trt_dynamic_shape_input_data opt) w
      = (Inr (), p, w\<lparr>calibrations := calibrations w @ [pred_calls p]\<rparr>)"
    by blast
  then have c: "collect_trt_shape_range_info e model_file params_file gpu_id path
            (trt_dynamic_shapes opt) (trt_dynamic_shape_input_data opt) w
          = (Inr (), predictor_del p (w\<lparr>calibrations := calibrations w @ [pred_calls p]\<rparr>))"
    by (simp add: collect_trt_shape_range_info_def ds)
  from collect_success[OF c] obtain calls where
    "predictor_del p (w\<lparr>calibrations := calibrations w @ [pred_calls p]\<rparr>)
       = w\<lparr>calibrations := calibrations w @ [calls], files := insert path (files w)\<rparr>"
    "count_list calls Run = 4"
    by blast
  with c show ?thesis by auto
qed

text \<open>
  C3. On the profile-driven route the shape range file is generated at most once per
  path. When the file exists and the discard flag is not set, nothing is calibrated: the
  call only logs that the file exists. When the file exists and the discard flag is set,
  the file is unlinked and the calibrator is called on the file system without it; with
  valid calibration input the predictor then runs its four passes and the file exists
  again. After any successful call the file exists, so that a second call without the
  discard flag calibrates nothing.
\<close>

theorem shape_range_info_collected_at_most_once:
  assumes "profile_route e opt"
  shows "(shape_range_path opt cache_dir \<in> files w
            \<and> \<not> trt_discard_cached_shape_range_info opt
          \<longrightarrow> (\<exists>cfg. configure_trt e opt prefix model_file params_file cache_dir w
                       = (Inr cfg, log (Info_AlreadyExists (shape_range_path opt cache_dir)) w))
              \<and> calibrations
                   (snd (configure_trt e opt prefix model_file params_file cache_dir w))
                 = calibrations w)
       \<and> (shape_range_path opt cache_dir \<in> files w
            \<and> trt_discard_cached_shape_range_info opt
          \<longrightarrow> configure_trt e opt prefix model_file params_file cache_dir w
               = (case collect_trt_shape_range_info e model_file params_file (device_id opt)
                         (shape_range_path opt cache_dir) (trt_dynamic_shapes opt)
                         (trt_dynamic_shape_input_data opt)
                         (log (Info_RemovedWillRecollect (shape_range_path opt cache_dir))
                            (w\<lparr>files := files w - {shape_range_path opt cache_dir},
                               fs_ops := fs_ops w
                                 @ [Unlink (shape_range_path opt cache_dir)]\<rparr>)) of
                    (Inl err, w2) \<Rightarrow> (Inl err, w2)
                  | (Inr u, w2) \<Rightarrow>
                      (Inr (cfg_do
                          [EnableTunedTensorrtDynamicShape (shape_range_path opt cache_dir)
                             (trt_allow_rebuild_at_runtime opt)]
                          (trt_base_config opt model_file params_file cache_dir)), w2)))
       \<and> (shape_range_path opt cache_dir \<in> files w
            \<and> trt_discard_cached_shape_range_info opt \<and> calibration_input_ok e opt
          \<longrightarrow> (\<exists>cfg calls.
                 configure_trt e opt prefix model_file params_file cache_dir w
                   = (Inr cfg,
                      w\<lparr>files := insert (shape_range_path opt cache_dir)
                                   (files w - {shape_range_path opt cache_dir}),
                        fs_ops := fs_ops w @ [Unlink (shape_range_path opt cache_dir)],
                        logs := logs w
                          @ [Info_RemovedWillRecollect (shape_range_path opt cache_dir)],
                        calibrations := calibrations w @ [calls]\<rparr>)
               \<and> count_list calls Run = 4))
       \<and> (\<forall>cfg w1 opt2.
             configure_trt e opt prefix model_file params_file cache_dir w = (Inr cfg, w1)
             \<and> profile_route e opt2
             \<and> shape_range_path opt2 cache_dir = shape_range_path opt cache_dir
             \<and> \<not> trt_discard_cached_shape_range_info opt2
           \<longrightarrow> shape_range_path opt cache_dir \<in> files w1
               \<and> (\<exists>cfg2. configure_trt e opt2 prefix model_file params_file cache_dir w1
                            = (Inr cfg2,
                               log (Info_AlreadyExists (shape_range_path opt cache_dir)) w1))
               \<and> calibrations
                    (snd (configure_trt e opt2 prefix model_file params_file cache_dir w1))
                  = calibrations w1)"
proof (intro conjI impI allI)
  assume a: "shape_range_path opt cache_dir \<in> files w
            \<and> \<not> trt_discard_cached_shape_range_info opt"
  then show "\<exists>cfg. configure_trt e opt prefix model_file params_file cache_dir w
                       = (Inr cfg, log (Info_AlreadyExists (shape_range_path opt cache_dir)) w)"
    using configure_skip[OF assms, of cache_dir w prefix model_file params_file] by simp
  from a show "calibrations
                   (snd (configure_trt e opt prefix model_file params_file cache_dir w))
                 = calibrations w"
    using configure_skip[OF assms, of cache_dir w prefix model_file params_file]
    by (simp add: log_def)
next
  assume "shape_range_path opt cache_dir \<in> files w
            \<and> trt_discard_cached_shape_range_info opt"
  then show "configure_trt e opt prefix model_file params_file cache_dir w
               = (case collect_trt_shape_range_info e model_file params_file (device_id opt)
                         (shape_range_path opt cache_dir) (trt_dynamic_shapes opt)
                         (trt_dynamic_shape_input_data opt)
                         (log (Info_RemovedWillRecollect (shape_range_path opt cache_dir))
                            (w\<lparr>files := files w - {shape_range_path opt cache_dir},
                               fs_ops := fs_ops w
                                 @ [Unlink (shape_range_path opt cache_dir)]\<rparr>)) of
                    (Inl err, w2) \<Rightarrow> (Inl err, w2)
                  | (Inr u, w2) \<Rightarrow>
                      (Inr (cfg_do
                          [EnableTunedTensorrtDynamicShape (shape_range_path opt cache_dir)
                             (trt_allow_rebuild_at_runtime opt)]
                          (trt_base_config opt model_file params_file cache_dir)), w2))"
    using configure_discard[OF assms, of cache_dir w prefix model_file params_file] by simp
next
  assume a: "shape_range_path opt cache_dir \<in> files w
            \<and> trt_discard_cached_shape_range_info opt \<and> calibration_input_ok e opt"
  let ?path = "shape_range_path opt cache_dir"
  let ?w0 = "log (Info_RemovedWillRecollect ?path)
                  (w\<lparr>files := files w - {?path}, fs_ops := fs_ops w @ [Unlink ?path]\<rparr>)"
  from a collect_validated[of e opt model_file params_file "device_id opt" ?path ?w0]
  obtain calls where
    c: "collect_trt_shape_range_info e model_file params_file (device_id opt) ?path
            (trt_dynamic_shapes opt) (trt_dynamic_shape_input_data opt) ?w0
          = (Inr (), ?w0\<lparr>calibrations := calibrations ?w0 @ [calls],
                        files := insert ?path (files ?w0)\<rparr>)"
    and r: "count_list calls Run = 4"
    by blast
  have "configure_trt e opt prefix model_file params_file cache_dir w
       = (Inr (cfg_do [EnableTunedTensorrtDynamicShape ?path (trt_allow_rebuild_at_runtime opt)]
                   (trt_base_config opt model_file params_file cache_dir)),
          ?w0\<lparr>calibrations := calibrations ?w0 @ [calls], files := insert ?path (files ?w0)\<rparr>)"
    using a configure_discard[OF assms, of cache_dir w prefix model_file params_file]
    by (simp add: c)
  moreover have "?w0\<lparr>calibrations := calibrations ?w0 @ [calls],
                     files := insert ?path (files ?w0)\<rparr>
      = w\<lparr>files := insert ?path (files w - {?path}),
           fs_ops := fs_ops w @ [Unlink ?path],
           logs := logs w @ [Info_RemovedWillRecollect ?path],
           calibrations := calibrations w @ [calls]\<rparr>"
    by (simp add: log_def)
  ultimately show "\<exists>cfg calls.
                 configure_trt e opt prefix model_file params_file cache_dir w
                   = (Inr cfg,
                      w\<lparr>files := insert ?path (files w - {?path}),
                        fs_ops := fs_ops w @ [Unlink ?path],
                        logs := logs w @ [Info_RemovedWillRecollect ?path],
                        calibrations := calibrations w @ [calls]\<rparr>)
               \<and> count_list calls Run = 4"
    using r by auto
next
  fix cfg w1 and opt2 :: "'a pp_option"
  assume a: "configure_trt e opt prefix model_file params_file cache_dir w = (Inr cfg, w1)
             \<and> profile_route e opt2
             \<and> shape_range_path opt2 cache_dir = shape_range_path opt cache_dir
             \<and> \<not> trt_discard_cached_shape_range_info opt2"
  then have f: "shape_range_path opt cache_dir \<in> files w1"
    using configure_success_file[OF assms] by blast
  then show "shape_range_path opt cache_dir \<in> files w1" .
  from a f have s: "configure_trt e opt2 prefix model_file params_file cache_dir w1
     = (Inr (cfg_do [EnableTunedTensorrtDynamicShape (shape_range_path opt2 cache_dir)
                       (trt_allow_rebuild_at_runtime opt2)]
               (trt_base_config opt2 model_file params_file cache_dir)),
        log (Info_AlreadyExists (shape_range_path opt2 cache_dir)) w1)"
    by (intro configure_skip) simp_all
  with a show "\<exists>cfg2. configure_trt e opt2 prefix model_file params_file cache_dir w1
                            = (Inr cfg2,
                               log (Info_AlreadyExists (shape_range_path opt cache_dir)) w1)"
    by simp
  from s show "calibrations
                    (snd (configure_trt e opt2 prefix model_file params_file cache_dir w1))
                  = calibrations w1"
    by (simp add: log_def)
qed

lemma ex_route: "profile_route ex_env ex_option" "profile_route ex_env ex_option_discard"
  by (simp_all add: profile_route_def ex_env_def ex_option_def ex_option_discard_def
        PRECISION_MAP_def)

lemma ex_path:
  "shape_range_path ex_option ''m/.cache/paddle'' = ''m/.cache/paddle/shape_range_info.pbtxt''"
  "shape_range_path ex_option_discard ''m/.cache/paddle''
     = ''m/.cache/paddle/shape_range_info.pbtxt''"
  by (simp_all add: shape_range_path_def ex_option_def ex_option_discard_def path_join_def)

lemma ex_input_ok: "calibration_input_ok ex_env ex_option_discard"
  using ex_valid
  by (simp add: calibration_input_ok_def ex_option_discard_def ex_option_def)

theorem shape_range_info_collected_at_most_once_witness:
  "profile_route ex_env ex_option_discard
   \<and> shape_range_path ex_option_discard ''m/.cache/paddle'' \<in> files ex_world_cached
   \<and> trt_discard_cached_shape_range_info ex_option_discard
   \<and> calibration_input_ok ex_env ex_option_discard
   \<and> profile_route ex_env ex_option
   \<and> shape_range_path ex_option ''m/.cache/paddle''
       = shape_range_path ex_option_discard ''m/.cache/paddle''
   \<and> \<not> trt_discard_cached_shape_range_info ex_option
   \<and> (\<exists>cfg w1 calls.
         configure_trt ex_env ex_option_discard ''inference'' ''m/inference.json''
           ''m/inference.pdiparams'' ''m/.cache/paddle'' ex_world_cached = (Inr cfg, w1)
       \<and> calibrations w1 = calibrations ex_world_cached @ [calls]
       \<and> count_list calls Run = 4
       \<and> fs_ops w1 = [Unlink ''m/.cache/paddle/shape_range_info.pbtxt'']
       \<and> ''m/.cache/paddle/shape_range_info.pbtxt'' \<in> files w1
       \<and> calibrations (snd (configure_trt ex_env ex_option ''inference'' ''m/inference.json''
            ''m/inference.pdiparams'' ''m/.cache/paddle'' w1)) = calibrations w1)
   \<and> calibrations (snd (configure_trt ex_env ex_option ''inference'' ''m/inference.json''
        ''m/inference.pdiparams'' ''m/.cache/paddle'' ex_world_cached))
      = calibrations ex_world_cached"
proof -
  note t = shape_range_info_collected_at_most_once[OF ex_route(2),
      of "''m/.cache/paddle''" ex_world_cached "''inference''" "''m/inference.json''"
         "''m/inference.pdiparams''"]
  note t0 = shape_range_info_collected_at_most_once[OF ex_route(1),
      of "''m/.cache/paddle''" ex_world_cached "''inference''" "''m/inference.json''"
         "''m/inference.pdiparams''"]
  have f: "shape_range_path ex_option_discard ''m/.cache/paddle'' \<in> files ex_world_cached"
    "shape_range_path ex_option ''m/.cache/paddle'' \<in> files ex_world_cached"
    by (simp_all add: ex_path ex_world_cached_def)
  have d: "trt_discard_cached_shape_range_info ex_option_discard"
    "\<not> trt_discard_cached_shape_range_info ex_option"
    by (simp_all add: ex_option_discard_def ex_option_def)
  have pe: "shape_range_path ex_option ''m/.cache/paddle''
       = shape_range_path ex_option_discard ''m/.cache/paddle''"
    by (simp add: ex_path)
  from t f(1) d(1) ex_input_ok obtain cfg calls where
    c: "configure_trt ex_env ex_option_discard ''inference'' ''m/inference.json''
           ''m/inference.pdiparams'' ''m/.cache/paddle'' ex_world_cached
        = (Inr cfg,
           ex_world_cached\<lparr>files := insert (shape_range_path ex_option_discard ''m/.cache/paddle'')
                   (files ex_world_cached - {shape_range_path ex_option_discard ''m/.cache/paddle''}),
              fs_ops := fs_ops ex_world_cached
                 @ [Unlink (shape_range_path ex_option_discard ''m/.cache/paddle'')],
              logs := logs ex_world_cached
                 @ [Info_RemovedWillRecollect (shape_range_path ex_option_discard ''m/.cache/paddle'')],
              calibrations := calibrations ex_world_cached @ [calls]\<rparr>)"
    and r: "count_list calls Run = 4"
    by blast
  define w1 where "w1 = snd (configure_trt ex_env ex_option_discard ''inference''
      ''m/inference.json'' ''m/inference.pdiparams'' ''m/.cache/paddle'' ex_world_cached)"
  have c1: "configure_trt ex_env ex_option_discard ''inference'' ''m/inference.json''
           ''m/inference.pdiparams'' ''m/.cache/paddle'' ex_world_cached = (Inr cfg, w1)"
    by (simp add: w1_def c)
  have w1: "calibrations w1 = calibrations ex_world_cached @ [calls]"
    "fs_ops w1 = [Unlink ''m/.cache/paddle/shape_range_info.pbtxt'']"
    "''m/.cache/paddle/shape_range_info.pbtxt'' \<in> files w1"
    by (simp_all add: w1_def c ex_path) (simp add: ex_world_cached_def ex_world_def)
  from t c1 ex_route(1) pe d(2)
  have second: "calibrations (snd (configure_trt ex_env ex_option ''inference''
      ''m/inference.json'' ''m/inference.pdiparams'' ''m/.cache/paddle'' w1)) = calibrations w1"
    by blast
  from t0 f(2) d(2)
  have skip: "calibrations (snd (configure_trt ex_env ex_option ''inference''
      ''m/inference.json'' ''m/inference.pdiparams'' ''m/.cache/paddle'' ex_world_cached))
      = calibrations ex_world_cached"
    by blast
  from c1 w1 r second
  have ex: "\<exists>cfg w1 calls.
         configure_trt ex_env ex_option_discard ''inference'' ''m/inference.json''
           ''m/inference.pdiparams'' ''m/.cache/paddle'' ex_world_cached = (Inr cfg, w1)
       \<and> calibrations w1 = calibrations ex_world_cached @ [calls]
       \<and> count_list calls Run = 4
       \<and> fs_ops w1 = [Unlink ''m/.cache/paddle/shape_range_info.pbtxt'']
       \<and> ''m/.cache/paddle/shape_range_info.pbtxt'' \<in> files w1
       \<and> calibrations (snd (configure_trt ex_env ex_option ''inference'' ''m/inference.json''
            ''m/inference.pdiparams'' ''m/.cache/paddle'' w1)) = calibrations w1"
    by blast
  from ex_route f(1) d ex_input_ok pe ex skip show ?thesis by (intro conjI)
qed

section \<open>Constructing the facade (C7, C8)\<close>

lemma normalized_fields:
  "device_type (normalized opt) = device_type opt"
  "model_name (normalized opt) = model_name opt"
  "run_mode (normalized opt)
     = (if model_name opt = ''LaTeX_OCR_rec'' then ''mkldnn'' else run_mode opt)"
  "device_id (normalized opt)
     = (if device_type opt \<in> {''gpu'', ''dcu''} \<and> device_id opt = None then Some 0
        else device_id opt)"
  by (simp_all add: normalized_def Let_def)

lemma normalize_fst:
  "fst (default_device_id (latex_ocr_run_mode e (opt0, w0))) = normalized opt0"
  by (simp add: default_device_id_def latex_ocr_run_mode_def normalized_def Let_def)

lemma normalize_snd:
  "calibrations (snd (default_device_id (latex_ocr_run_mode e (opt0, w0)))) = calibrations w0"
  "conversions (snd (default_device_id (latex_ocr_run_mode e (opt0, w0)))) = conversions w0"
  "files (snd (default_device_id (latex_ocr_run_mode e (opt0, w0)))) = files w0"
  by (simp_all add: default_device_id_def latex_ocr_run_mode_def log_def)

lemma create_unfold:
  assumes "paddle_model_paths e = Some (mf, pf)"
  shows "create e model_dir prefix opt0 w0 =
     (let opt = normalized opt0;
          w2 = snd (default_device_id (latex_ocr_run_mode e (opt0, w0)));
          rw = initial_config e model_dir prefix mf pf opt w2
      in case fst rw of
           Inl err \<Rightarrow> (Inl err, opt, snd rw)
         | Inr cfg \<Rightarrow>
             (case fst (configure_device e opt cfg (snd rw)) of
                Inl err \<Rightarrow> (Inl err, opt, snd (configure_device e opt cfg (snd rw)))
              | Inr cfg1 \<Rightarrow>
                  (Inr (create_predictor e (cfg_do
                          ([EnableMemoryOptim] @ map DeletePass (delete_pass opt) @
                           (if \<not> DEBUG e then [DisableGlogInfo] else [])) cfg1)), opt,
                   snd (configure_device e opt cfg (snd rw)))))"
  unfolding create_def assms option.case prod.case Let_def case_prod_beta normalize_fst
    fst_conv snd_conv
  by (rule refl)

lemma create_option:
  "fst (snd (create e model_dir prefix opt0 w0))
     = (if paddle_model_paths e = None then opt0 else normalized opt0)"
proof (cases "paddle_model_paths e")
  case None
  then show ?thesis by (simp add: create_def)
next
  case (Some a)
  obtain mf pf where a: "a = (mf, pf)" by (cases a)
  show ?thesis
    unfolding create_unfold[OF Some[unfolded a]] Let_def
    by (simp add: Some split: sum.splits)
qed

lemma cfg_do_calls: "cfg_calls (cfg_do cs cfg) = cfg_calls cfg @ cs"
  by (simp add: cfg_do_def)

lemma configure_device_world:
  "calibrations (snd (configure_device e opt cfg w)) = calibrations w"
  "conversions (snd (configure_device e opt cfg w)) = conversions w"
  "files (snd (configure_device e opt cfg w)) = files w"
  by (simp_all add: configure_device_def log_def Let_def case_prod_beta)

lemma configure_device_calls:
  assumes "fst (configure_device e opt cfg w) = Inr cfg1"
  shows "\<exists>cs. cfg_calls cfg1 = cfg_calls cfg @ cs \<and> list_all (\<lambda>c. \<not> trt_call c) cs"
proof -
  have n: "list_all (\<lambda>c. \<not> trt_call c) (new_executor e)"
    "list_all (\<lambda>c. \<not> trt_call c) (new_ir e opt)"
    by (simp_all add: new_executor_def new_ir_def)
  from assms show ?thesis
    unfolding configure_device_def Let_def case_prod_beta
    by (auto simp: cfg_do_calls n split: if_splits)
qed

lemma configure_device_gpu_id:
  assumes "fst (configure_device e opt cfg w) = Inr cfg1"
    and "device_type opt \<in> {''gpu'', ''dcu''}"
  shows "EnableUseGpu 100 (device_id opt) \<in> set (cfg_calls cfg1)"
  using assms unfolding configure_device_def
  by (auto simp: cfg_do_calls split: if_splits)

lemma initial_config_non_gpu:
  assumes "device_type opt \<noteq> ''gpu''"
  shows "initial_config e model_dir prefix mf pf opt w
     = (if startswith (run_mode opt) ''trt'' then (Inl AssertionError, w)
        else (Inr (Config mf pf), w))"
  using assms by (simp add: initial_config_def)

lemma create_non_gpu_trt:
  assumes "paddle_model_paths e = Some (mf, pf)"
    and "device_type opt0 \<noteq> ''gpu''"
    and "startswith (run_mode (normalized opt0)) ''trt''"
  shows "create e model_dir prefix opt0 w0
     = (Inl AssertionError, normalized opt0,
        snd (default_device_id (latex_ocr_run_mode e (opt0, w0))))"
  unfolding create_unfold[OF assms(1)] Let_def
  using assms(2,3) by (simp add: initial_config_non_gpu normalized_fields(1))

lemma create_non_gpu_plain:
  assumes "paddle_model_paths e = Some (mf, pf)"
    and "device_type opt0 \<noteq> ''gpu''"
    and "\<not> startswith (run_mode (normalized opt0)) ''trt''"
  shows "create e model_dir prefix opt0 w0
     = (case fst (configure_device e (normalized opt0) (Config mf pf)
                    (snd (default_device_id (latex_ocr_run_mode e (opt0, w0))))) of
          Inl err \<Rightarrow>
            (Inl err, normalized opt0,
             snd (configure_device e (normalized opt0) (Config mf pf)
                    (snd (default_device_id (latex_ocr_run_mode e (opt0, w0))))))
        | Inr cfg1 \<Rightarrow>
            (Inr (create_predictor e (cfg_do
                    ([EnableMemoryOptim] @ map DeletePass (delete_pass (normalized opt0)) @
                     (if \<not> DEBUG e then [DisableGlogInfo] else [])) cfg1)),
             normalized opt0,
             snd (configure_device e (normalized opt0) (Config mf pf)
                    (snd (default_device_id (latex_ocr_run_mode e (opt0, w0)))))))"
proof -
  have ic: "initial_config e model_dir prefix mf pf (normalized opt0) W
              = (Inr (Config mf pf), W)" for W
    using assms(2,3) by (simp add: initial_config_non_gpu normalized_fields(1))
  show ?thesis
    unfolding create_unfold[OF assms(1)] Let_def ic fst_conv snd_conv sum.case
    by (rule refl)
qed

lemma StaticInfer_create:
  "snd (StaticInfer e model_dir prefix opt w) = snd (create e model_dir prefix opt w)"
  "fst (create e model_dir prefix opt w) = Inl err
     \<Longrightarrow> fst (StaticInfer e model_dir prefix opt w) = Inl err"
  "fst (create e model_dir prefix opt w) = Inr p
     \<Longrightarrow> \<exists>s. fst (StaticInfer e model_dir prefix opt w) = Inr s \<and> si_predictor s = p
           \<and> si_option s = fst (snd (create e model_dir prefix opt w))"
  by (auto simp: StaticInfer_def split: prod.splits sum.splits)

lemma StaticInfer_Inr:
  assumes "fst (StaticInfer e model_dir prefix opt w) = Inr s"
  shows "fst (create e model_dir prefix opt w) = Inr (si_predictor s)"
    and "si_option s = fst (snd (create e model_dir prefix opt w))"
    and "si_infer s =
           (if \<not> use_legacy_api (si_option s) then
              Chain (if device_type (si_option s) = ''dcu'' then ''gpu''
                     else device_type (si_option s)) (device_id (si_option s))
            else ChainLegacy (get_input_names (si_predictor s)) (pred_outputs (si_predictor s)))"
  using assms by (auto simp: StaticInfer_def split: prod.splits sum.splits)

lemma non_gpu_world:
  assumes "device_type opt \<noteq> ''gpu''"
  shows "calibrations (snd (snd (create e model_dir prefix opt w))) = calibrations w
       \<and> conversions (snd (snd (create e model_dir prefix opt w))) = conversions w"
proof (cases "paddle_model_paths e")
  case None
  then show ?thesis by (simp add: create_def)
next
  case (Some a)
  obtain mf pf where a: "paddle_model_paths e = Some (mf, pf)" using Some by (cases a) simp
  show ?thesis
  proof (cases "startswith (run_mode (normalized opt)) ''trt''")
    case True
    show ?thesis
      by (simp add: create_non_gpu_trt[OF a assms True] normalize_snd)
  next
    case False
    show ?thesis
      by (simp add: create_non_gpu_plain[OF a assms False] configure_device_world
            normalize_snd split: sum.splits)
  qed
qed

lemma non_gpu_calls:
  assumes "device_type opt \<noteq> ''gpu''"
    and "fst (create e model_dir prefix opt w) = Inr p"
  shows "list_all (\<lambda>c. \<not> trt_call c) (cfg_calls (pred_config p))"
proof (cases "paddle_model_paths e")
  case None
  with assms(2) show ?thesis by (simp add: create_def)
next
  case (Some a)
  obtain mf pf where a: "paddle_model_paths e = Some (mf, pf)" using Some by (cases a) simp
  show ?thesis
  proof (cases "startswith (run_mode (normalized opt)) ''trt''")
    case True
    with assms(2) show ?thesis
      by (simp add: create_non_gpu_trt[OF a assms(1) True])
  next
    case False
    let ?cd = "configure_device e (normalized opt) (Config mf pf)
                    (snd (default_device_id (latex_ocr_run_mode e (opt, w))))"
    from assms(2) obtain cfg1 where c: "fst ?cd = Inr cfg1"
      and p: "p = create_predictor e (cfg_do
                    ([EnableMemoryOptim] @ map DeletePass (delete_pass (normalized opt)) @
                     (if \<not> DEBUG e then [DisableGlogInfo] else [])) cfg1)"
      unfolding create_non_gpu_plain[OF a assms(1) False]
      by (auto split: sum.splits)
    from configure_device_calls[OF c] obtain cs where
      "cfg_calls cfg1 = cfg_calls (Config mf pf) @ cs" "list_all (\<lambda>c. \<not> trt_call c) cs"
      by blast
    then show ?thesis
      by (auto simp: p create_predictor_def cfg_do_calls Config_def list_all_iff)
  qed
qed

lemma configure_device_cpu:
  assumes "device_type opt = ''cpu''"
  shows "\<exists>cfg1. fst (configure_device e opt cfg w) = Inr cfg1"
  using assms by (simp add: configure_device_def Let_def case_prod_beta)

text \<open>
  C7. The claim says that every option whose run mode asks for accelerator compilation on a
  device other than a gpu makes construction raise. For the model \<open>LaTeX_OCR_rec\<close> the
  run mode is first replaced by \<open>mkldnn\<close>, and construction succeeds. What holds: on a
  device other than a gpu, when the run mode starts with \<open>trt\<close> and the model is not
  \<open>LaTeX_OCR_rec\<close>, construction raises, the assertion error when the model files are
  found and the missing-model error otherwise; and on such a device no calibration and no
  accelerator compilation is ever performed, and a predictor that is constructed has no
  accelerator setting in its configuration.
\<close>

theorem accelerator_mode_needs_gpu:
  assumes "device_type opt \<noteq> ''gpu''"
  shows "(startswith (run_mode opt) ''trt'' \<and> model_name opt \<noteq> ''LaTeX_OCR_rec''
          \<longrightarrow> fst (StaticInfer e model_dir prefix opt w)
               = Inl (if paddle_model_paths e = None then RuntimeError_NoValidModel
                      else AssertionError))
       \<and> calibrations (snd (snd (StaticInfer e model_dir prefix opt w))) = calibrations w
       \<and> conversions (snd (snd (StaticInfer e model_dir prefix opt w))) = conversions w
       \<and> (\<forall>s. fst (StaticInfer e model_dir prefix opt w) = Inr s
              \<longrightarrow> list_all (\<lambda>c. \<not> trt_call c) (cfg_calls (pred_config (si_predictor s))))"
proof (intro conjI impI allI)
  assume a: "startswith (run_mode opt) ''trt'' \<and> model_name opt \<noteq> ''LaTeX_OCR_rec''"
  show "fst (StaticInfer e model_dir prefix opt w)
               = Inl (if paddle_model_paths e = None then RuntimeError_NoValidModel
                      else AssertionError)"
  proof (cases "paddle_model_paths e")
    case None
    then have "fst (create e model_dir prefix opt w) = Inl RuntimeError_NoValidModel"
      by (simp add: create_def)
    from StaticInfer_create(2)[OF this] None show ?thesis by simp
  next
    case (Some x)
    obtain mf pf where p: "paddle_model_paths e = Some (mf, pf)" using Some by (cases x) simp
    from a have "startswith (run_mode (normalized opt)) ''trt''"
      by (simp add: normalized_fields)
    from create_non_gpu_trt[OF p assms this]
    have "fst (create e model_dir prefix opt w) = Inl AssertionError" by simp
    from StaticInfer_create(2)[OF this] p show ?thesis by simp
  qed
next
  show "calibrations (snd (snd (StaticInfer e model_dir prefix opt w))) = calibrations w"
    using non_gpu_world[OF assms] by (simp add: StaticInfer_create(1))
  show "conversions (snd (snd (StaticInfer e model_dir prefix opt w))) = conversions w"
    using non_gpu_world[OF assms] by (simp add: StaticInfer_create(1))
next
  fix s assume "fst (StaticInfer e model_dir prefix opt w) = Inr s"
  from StaticInfer_Inr(1)[OF this] non_gpu_calls[OF assms]
  show "list_all (\<lambda>c. \<not> trt_call c) (cfg_calls (pred_config (si_predictor s)))"
    by blast
qed

lemma ex_paths: "paddle_model_paths ex_env = Some (''m/inference.json'', ''m/inference.pdiparams'')"
  by (simp add: ex_env_def)

lemma ex_latex_constructed:
  "\<exists>s. fst (StaticInfer ex_env ''m'' ''inference'' ex_option_latex ex_world) = Inr s
      \<and> run_mode (si_option s) = ''mkldnn''"
proof -
  have d: "device_type ex_option_latex \<noteq> ''gpu''"
    by (simp add: ex_option_latex_def ex_option_def)
  have r: "run_mode (normalized ex_option_latex) = ''mkldnn''"
    by (simp add: normalized_fields ex_option_latex_def)
  then have n: "\<not> startswith (run_mode (normalized ex_option_latex)) ''trt''" by simp
  have "device_type (normalized ex_option_latex) = ''cpu''"
    by (simp add: normalized_fields ex_option_latex_def ex_option_def)
  from configure_device_cpu[OF this] create_non_gpu_plain[OF ex_paths d n]
  obtain p where "fst (create ex_env ''m'' ''inference'' ex_option_latex ex_world) = Inr p"
    by (metis (no_types, lifting) fst_conv sum.case(2))
  from StaticInfer_create(3)[OF this] create_option[of ex_env] r show ?thesis
    by (auto simp: ex_paths)
qed

theorem accelerator_mode_non_gpu_counterexample:
  "startswith (run_mode ex_option_latex) ''trt''
   \<and> device_type ex_option_latex \<noteq> ''gpu''
   \<and> \<not> isl (fst (StaticInfer ex_env ''m'' ''inference'' ex_option_latex ex_world))"
proof -
  have "startswith (run_mode ex_option_latex) ''trt''"
    "device_type ex_option_latex \<noteq> ''gpu''"
    by (simp_all add: ex_option_latex_def ex_option_def)
  moreover from ex_latex_constructed
  have "\<not> isl (fst (StaticInfer ex_env ''m'' ''inference'' ex_option_latex ex_world))"
    by auto
  ultimately show ?thesis by blast
qed

lemma ex_cpu_constructed:
  "\<exists>s. fst (StaticInfer ex_env ''m'' ''inference'' ex_option_cpu ex_world) = Inr s"
proof -
  have d: "device_type ex_option_cpu \<noteq> ''gpu''"
    by (simp add: ex_option_cpu_def ex_option_def)
  have r: "run_mode (normalized ex_option_cpu) = ''paddle''"
    by (simp add: normalized_fields ex_option_cpu_def ex_option_def)
  then have n: "\<not> startswith (run_mode (normalized ex_option_cpu)) ''trt''" by simp
  have "device_type (normalized ex_option_cpu) = ''cpu''"
    by (simp add: normalized_fields ex_option_cpu_def ex_option_def)
  from configure_device_cpu[OF this] create_non_gpu_plain[OF ex_paths d n]
  obtain p where "fst (create ex_env ''m'' ''inference'' ex_option_cpu ex_world) = Inr p"
    by (metis (no_types, lifting) fst_conv sum.case(2))
  from StaticInfer_create(3)[OF this] show ?thesis by blast
qed

theorem accelerator_mode_needs_gpu_witness:
  "device_type ex_option_cpu_trt \<noteq> ''gpu''
   \<and> startswith (run_mode ex_option_cpu_trt) ''trt''
   \<and> model_name ex_option_cpu_trt \<noteq> ''LaTeX_OCR_rec''
   \<and> fst (StaticInfer ex_env ''m'' ''inference'' ex_option_cpu_trt ex_world) = Inl AssertionError
   \<and> calibrations (snd (snd (StaticInfer ex_env ''m'' ''inference'' ex_option_cpu_trt ex_world)))
       = calibrations ex_world
   \<and> device_type ex_option_cpu \<noteq> ''gpu''
   \<and> (\<exists>s. fst (StaticInfer ex_env ''m'' ''inference'' ex_option_cpu ex_world) = Inr s
          \<and> list_all (\<lambda>c. \<not> trt_call c) (cfg_calls (pred_config (si_predictor s))))"
proof -
  have h: "device_type ex_option_cpu_trt \<noteq> ''gpu''"
    "startswith (run_mode ex_option_cpu_trt) ''trt''"
    "model_name ex_option_cpu_trt \<noteq> ''LaTeX_OCR_rec''"
    by (simp_all add: ex_option_cpu_trt_def ex_option_def)
  have h2: "device_type ex_option_cpu \<noteq> ''gpu''"
    by (simp add: ex_option_cpu_def ex_option_def)
  note t = accelerator_mode_needs_gpu[OF h(1), of ex_env "''m''" "''inference''" ex_world]
  from t h(2,3) ex_paths
  have a: "fst (StaticInfer ex_env ''m'' ''inference'' ex_option_cpu_trt ex_world)
             = Inl AssertionError"
    by simp
  from t have b: "calibrations (snd (snd (StaticInfer ex_env ''m'' ''inference''
      ex_option_cpu_trt ex_world))) = calibrations ex_world"
    by blast
  from ex_cpu_constructed
    accelerator_mode_needs_gpu[OF h2, of ex_env "''m''" "''inference''" ex_world]
  have c: "\<exists>s. fst (StaticInfer ex_env ''m'' ''inference'' ex_option_cpu ex_world) = Inr s
          \<and> list_all (\<lambda>c. \<not> trt_call c) (cfg_calls (pred_config (si_predictor s)))"
    by blast
  from h h2 a b c show ?thesis by (intro conjI)
qed

lemma call_keeps:
  "si_option (snd (call e s x)) = si_option s"
  "si_infer (snd (call e s x)) = si_infer s"
  "pred_config (si_predictor (snd (call e s x))) = pred_config (si_predictor s)"
  by (auto simp: call_def infer_def Let_def native_def split: sum.splits pipeline.splits)

lemma run_all_keeps:
  "si_option (run_all e s xs) = si_option s
   \<and> si_infer (run_all e s xs) = si_infer s
   \<and> pred_config (si_predictor (run_all e s xs)) = pred_config (si_predictor s)"
  by (induction xs arbitrary: s) (simp_all add: call_keeps)

lemma create_gpu_id:
  assumes "fst (create e model_dir prefix opt w) = Inr p"
    and "device_type opt \<in> {''gpu'', ''dcu''}"
  shows "EnableUseGpu 100 (device_id (normalized opt)) \<in> set (cfg_calls (pred_config p))"
proof (cases "paddle_model_paths e")
  case None
  with assms(1) show ?thesis by (simp add: create_def)
next
  case (Some a)
  obtain mf pf where a: "paddle_model_paths e = Some (mf, pf)" using Some by (cases a) simp
  define rw where "rw = initial_config e model_dir prefix mf pf (normalized opt)
      (snd (default_device_id (latex_ocr_run_mode e (opt, w))))"
  from assms(1) obtain cfg cfg1 where "fst rw = Inr cfg"
    and c: "fst (configure_device e (normalized opt) cfg (snd rw)) = Inr cfg1"
    and p: "p = create_predictor e (cfg_do
                    ([EnableMemoryOptim] @ map DeletePass (delete_pass (normalized opt)) @
                     (if \<not> DEBUG e then [DisableGlogInfo] else [])) cfg1)"
    unfolding create_unfold[OF a] Let_def rw_def[symmetric]
    by (auto split: sum.splits)
  have "device_type (normalized opt) \<in> {''gpu'', ''dcu''}"
    using assms(2) by (simp add: normalized_fields)
  from configure_device_gpu_id[OF c this]
  show ?thesis by (simp add: p create_predictor_def cfg_do_calls)
qed

text \<open>
  C8. When construction succeeds, the option object of the facade is the caller's option
  after the two normalisations of \<open>create\<close> and nothing else: its device id is 0 when the
  device is a gpu or dcu and the id was unset, and the given id otherwise. For a gpu or
  dcu the predictor is constructed from a configuration that already holds this id. No
  number of later calls changes the option, the pipeline or the configuration.
\<close>

theorem device_id_default_fixed:
  assumes "StaticInfer e model_dir prefix opt w = (Inr s, opt', w')"
  shows "si_option s = normalized opt \<and> opt' = normalized opt
       \<and> device_id (si_option s)
           = (if device_type opt \<in> {''gpu'', ''dcu''} \<and> device_id opt = None then Some 0
              else device_id opt)
       \<and> (device_type opt \<in> {''gpu'', ''dcu''}
            \<longrightarrow> EnableUseGpu 100 (device_id (si_option s))
                  \<in> set (cfg_calls (pred_config (si_predictor s))))
       \<and> (\<not> use_legacy_api (si_option s)
            \<longrightarrow> (\<exists>dev. si_infer s = Chain dev (device_id (si_option s))))
       \<and> (\<forall>xs. si_option (run_all e s xs) = si_option s
              \<and> si_infer (run_all e s xs) = si_infer s
              \<and> pred_config (si_predictor (run_all e s xs)) = pred_config (si_predictor s))"
proof -
  from assms have f: "fst (StaticInfer e model_dir prefix opt w) = Inr s" by simp
  note c = StaticInfer_Inr[OF f]
  have paths: "paddle_model_paths e \<noteq> None"
    using c(1) by (cases "paddle_model_paths e") (simp_all add: create_def)
  have o: "si_option s = normalized opt"
    using c(2) paths by (simp add: create_option)
  have "opt' = fst (snd (create e model_dir prefix opt w))"
    using assms StaticInfer_create(1)[of e model_dir prefix opt w]
    by (metis fst_conv snd_conv)
  then have o': "opt' = normalized opt" using paths by (simp add: create_option)
  have g: "device_type opt \<in> {''gpu'', ''dcu''}
            \<longrightarrow> EnableUseGpu 100 (device_id (si_option s))
                  \<in> set (cfg_calls (pred_config (si_predictor s)))"
    using create_gpu_id[OF c(1)] o by simp
  have i: "\<not> use_legacy_api (si_option s)
            \<longrightarrow> (\<exists>dev. si_infer s = Chain dev (device_id (si_option s)))"
    using c(3) by simp
  from o o' g i run_all_keeps[of e s] show ?thesis
    by (simp add: normalized_fields)
qed

lemma configure_device_dcu:
  assumes "device_type opt = ''dcu''"
  shows "\<exists>cfg1. fst (configure_device e opt cfg w) = Inr cfg1"
  using assms by (simp add: configure_device_def)

lemma ex_dcu_constructed:
  "\<exists>s. fst (StaticInfer ex_env ''m'' ''inference'' ex_option_dcu ex_world) = Inr s"
proof -
  have d: "device_type ex_option_dcu \<noteq> ''gpu''"
    by (simp add: ex_option_dcu_def ex_option_def)
  have r: "run_mode (normalized ex_option_dcu) = ''paddle''"
    by (simp add: normalized_fields ex_option_dcu_def ex_option_def)
  then have n: "\<not> startswith (run_mode (normalized ex_option_dcu)) ''trt''" by simp
  have "device_type (normalized ex_option_dcu) = ''dcu''"
    by (simp add: normalized_fields ex_option_dcu_def ex_option_def)
  from configure_device_dcu[OF this] create_non_gpu_plain[OF ex_paths d n]
  obtain p where "fst (create ex_env ''m'' ''inference'' ex_option_dcu ex_world) = Inr p"
    by (metis (no_types, lifting) fst_conv sum.case(2))
  from StaticInfer_create(3)[OF this] show ?thesis by blast
qed

theorem device_id_default_fixed_witness:
  "\<exists>s opt' w'.
     StaticInfer ex_env ''m'' ''inference'' ex_option_dcu ex_world = (Inr s, opt', w')
     \<and> device_type ex_option_dcu \<in> {''gpu'', ''dcu''} \<and> device_id ex_option_dcu = None
     \<and> device_id (si_option s) = Some 0 \<and> device_id opt' = Some 0
     \<and> EnableUseGpu 100 (Some 0) \<in> set (cfg_calls (pred_config (si_predictor s)))
     \<and> \<not> use_legacy_api (si_option s)
     \<and> si_infer s = Chain ''gpu'' (Some 0)
     \<and> device_id (si_option (run_all ex_env s [[ex_array 1, ex_array 2], [ex_array 1]]))
         = Some 0"
proof -
  from ex_dcu_constructed obtain s where
    f: "fst (StaticInfer ex_env ''m'' ''inference'' ex_option_dcu ex_world) = Inr s" by blast
  then obtain opt' w' where
    c: "StaticInfer ex_env ''m'' ''inference'' ex_option_dcu ex_world = (Inr s, opt', w')"
    by (metis prod.collapse)
  note t = device_id_default_fixed[OF c]
  have d: "device_type ex_option_dcu \<in> {''gpu'', ''dcu''}" "device_id ex_option_dcu = None"
    by (simp_all add: ex_option_dcu_def ex_option_def)
  from t have t3: "device_id (si_option s)
           = (if device_type ex_option_dcu \<in> {''gpu'', ''dcu''} \<and> device_id ex_option_dcu = None
              then Some 0 else device_id ex_option_dcu)"
    by blast
  then have i: "device_id (si_option s) = Some 0"
    by (simp only: d simp_thms if_True)
  from t have "opt' = si_option s" by simp
  with i have i': "device_id opt' = Some 0" by simp
  from t have "device_type ex_option_dcu \<in> {''gpu'', ''dcu''}
            \<longrightarrow> EnableUseGpu 100 (device_id (si_option s))
                  \<in> set (cfg_calls (pred_config (si_predictor s)))"
    by blast
  with d(1) i have g:
    "EnableUseGpu 100 (Some 0) \<in> set (cfg_calls (pred_config (si_predictor s)))"
    by (simp only: simp_thms)
  from t have o: "si_option s = normalized ex_option_dcu" by simp
  have l: "\<not> use_legacy_api (si_option s)"
    by (simp add: o use_legacy_api_def normalized_fields) (simp add: ex_option_dcu_def)
  have "si_infer s = Chain ''gpu'' (Some 0)"
    using StaticInfer_Inr(3)[OF f] l i
    by (simp add: o normalized_fields(1)) (simp add: ex_option_dcu_def)
  moreover from t have "si_option (run_all ex_env s
      [[ex_array 1, ex_array 2], [ex_array 1]]) = si_option s"
    by blast
  with i have "device_id (si_option (run_all ex_env s
      [[ex_array 1, ex_array 2], [ex_array 1]])) = Some 0"
    by simp
  ultimately show ?thesis using c d i i' g l by blast
qed

section \<open>Element types (C9)\<close>













end
